theory Spec2Isabelle
  imports Complex_Main "HOL-Library.Multiset" "HOL-Library.Log_Nat"
begin

section \<open>Python values\<close>

text \<open>
  The records handled by \<^verbatim>\<open>garmin_health.py\<close> are Python dicts decoded from JSON. A
  field holds \<^verbatim>\<open>None\<close>, an int (unbounded), a float or a string; a dict is an
  association list from field names to values.

  A float is an IEEE 754 binary64 number: a finite one is represented by its value, a
  dyadic rational (positive and negative zero are one value, as they are for Python's
  \<^verbatim>\<open>==\<close>), and there are the two infinities and NaN.
\<close>

datatype pyfloat = Finite rat | PosInf | NegInf | NaN

datatype pyval = PyNone | PyInt int | PyFloat pyfloat | PyStr string

type_synonym pydict = "(string \<times> pyval) list"

text \<open>
  \<^verbatim>\<open>d.get(k)\<close>: \<^verbatim>\<open>None\<close> when the key is missing, the stored value (which may
  itself be \<^verbatim>\<open>None\<close>) otherwise. It never raises.
\<close>

definition dict_get :: "pydict \<Rightarrow> string \<Rightarrow> pyval" where
  "dict_get d k = (case map_of d k of None \<Rightarrow> PyNone | Some v \<Rightarrow> v)"

text \<open>
  The exceptions of a run: the \<^verbatim>\<open>ValueError\<close> that \<^verbatim>\<open>sync_health\<close> raises itself,
  those that Python's arithmetic raises, and those that come out of a call to one of the
  two services (instances of \<^verbatim>\<open>Exception\<close>, carrying a message) and are not caught.
\<close>

datatype exn = Exn string

datatype error =
    ValueError string
  | TypeError
  | OverflowError
  | ZeroDivisionError
  | Propagated exn

section \<open>Python arithmetic\<close>

text \<open>
  Rounding of a rational to the nearest binary64 number, ties to even. For \<open>x \<noteq> 0\<close>
  with \<open>2 ^ e \<le> \<bar>x\<bar> < 2 ^ (e + 1)\<close>, the spacing of the doubles around \<open>x\<close> is
  \<open>2 ^ (e - 52)\<close>, and \<open>2 ^ (- 1074)\<close> in the subnormal range \<open>e < - 1022\<close>; \<open>x\<close> is
  rounded to a multiple of that spacing. A result of magnitude \<open>2 ^ 1024\<close> is an overflow.
\<close>

definition pow2 :: "int \<Rightarrow> rat" where
  "pow2 e = (if 0 \<le> e then 2 ^ nat e else 1 / 2 ^ nat (- e))"

definition floor_log2 :: "rat \<Rightarrow> int" where
  "floor_log2 x =
     (if 1 \<le> x then bitlen \<lfloor>x\<rfloor> - 1 else - bitlen (\<lceil>1 / x\<rceil> - 1))"

definition round_half_even :: "rat \<Rightarrow> int" where
  "round_half_even x =
     (let f = \<lfloor>x\<rfloor>; d = x - of_int f
      in if d < 1 / 2 then f
         else if 1 / 2 < d then f + 1
         else if even f then f else f + 1)"

definition round_double :: "rat \<Rightarrow> pyfloat" where
  "round_double x =
     (if x = 0 then Finite 0
      else let e = max (floor_log2 \<bar>x\<bar>) (- 1022);
               ulp = pow2 (e - 52);
               y = of_int (round_half_even (x / ulp)) * ulp
           in if pow2 1024 \<le> y then PosInf
              else if y \<le> - pow2 1024 then NegInf
              else Finite y)"

text \<open>
  Addition of floats, and their quotient for a divisor other than zero (Python raises on
  a zero divisor before dividing), as IEEE 754 defines them.
\<close>

fun float_add :: "pyfloat \<Rightarrow> pyfloat \<Rightarrow> pyfloat" where
  "float_add (Finite x) (Finite y) = round_double (x + y)"
| "float_add NaN b = NaN"
| "float_add a NaN = NaN"
| "float_add PosInf NegInf = NaN"
| "float_add NegInf PosInf = NaN"
| "float_add PosInf b = PosInf"
| "float_add NegInf b = NegInf"
| "float_add a PosInf = PosInf"
| "float_add a NegInf = NegInf"

fun float_quotient :: "pyfloat \<Rightarrow> pyfloat \<Rightarrow> pyfloat" where
  "float_quotient (Finite x) (Finite y) = round_double (x / y)"
| "float_quotient NaN b = NaN"
| "float_quotient a NaN = NaN"
| "float_quotient (Finite x) b = Finite 0"
| "float_quotient PosInf (Finite y) = (if 0 < y then PosInf else NegInf)"
| "float_quotient NegInf (Finite y) = (if 0 < y then NegInf else PosInf)"
| "float_quotient a b = NaN"

text \<open>
  Python's \<^verbatim>\<open>float / float\<close> raises \<^verbatim>\<open>ZeroDivisionError\<close> on a zero divisor.
  The conversion of an int to a float (made when an int meets a float) rounds to nearest
  and raises \<^verbatim>\<open>OverflowError\<close> beyond the range of doubles; so does the true division
  of two ints, which is the correctly rounded quotient.
\<close>

definition float_div :: "pyfloat \<Rightarrow> pyfloat \<Rightarrow> error + pyfloat" where
  "float_div a b = (if b = Finite 0 then Inl ZeroDivisionError else Inr (float_quotient a b))"

definition finite_or_overflow :: "pyfloat \<Rightarrow> error + pyfloat" where
  "finite_or_overflow a = (case a of Finite r \<Rightarrow> Inr (Finite r) | _ \<Rightarrow> Inl OverflowError)"

definition float_of_int :: "int \<Rightarrow> error + pyfloat" where
  "float_of_int i = finite_or_overflow (round_double (of_int i))"

definition int_true_divide :: "int \<Rightarrow> int \<Rightarrow> error + pyfloat" where
  "int_true_divide a b =
     (if b = 0 then Inl ZeroDivisionError
      else finite_or_overflow (round_double (of_int a / of_int b)))"

text \<open>
  \<^verbatim>\<open>a + b\<close> on the values of the model (it is what \<^verbatim>\<open>total += value\<close> computes), and
  \<^verbatim>\<open>total / count\<close> for an int \<^verbatim>\<open>count\<close>.
\<close>

fun py_add :: "pyval \<Rightarrow> pyval \<Rightarrow> error + pyval" where
  "py_add (PyInt a) (PyInt b) = Inr (PyInt (a + b))"
| "py_add (PyInt a) (PyFloat g) =
     (case float_of_int a of Inl e \<Rightarrow> Inl e | Inr f \<Rightarrow> Inr (PyFloat (float_add f g)))"
| "py_add (PyFloat f) (PyInt b) =
     (case float_of_int b of Inl e \<Rightarrow> Inl e | Inr g \<Rightarrow> Inr (PyFloat (float_add f g)))"
| "py_add (PyFloat f) (PyFloat g) = Inr (PyFloat (float_add f g))"
| "py_add (PyStr s) (PyStr t) = Inr (PyStr (s @ t))"
| "py_add a b = Inl TypeError"

fun py_truediv :: "pyval \<Rightarrow> int \<Rightarrow> error + pyfloat" where
  "py_truediv (PyInt a) n = int_true_divide a n"
| "py_truediv (PyFloat f) n =
     (case float_of_int n of Inl e \<Rightarrow> Inl e | Inr g \<Rightarrow> float_div f g)"
| "py_truediv a n = Inl TypeError"

section \<open>The respiration aggregator\<close>

text \<open>
  \<^verbatim>\<open>
  def get_average_respiration(respiration_data: list[dict]) -> float | None:
      if not respiration_data:
          return None
      total = 0
      count = 0
      for entry in respiration_data:
          value = entry.get("averageRespirationValue")
          if value is not None:
              total += value
              count += 1
      if count == 0:
          return None
      return total / count
  \<close>
  The \<^verbatim>\<open>for\<close> loop is \<open>respiration_loop\<close>, with the two accumulators
  \<^verbatim>\<open>total\<close> and \<^verbatim>\<open>count\<close> passed along as \<open>tot\<close> and \<open>cnt\<close>; an exception raised
  by the addition or by the division is the function's.
\<close>

fun respiration_loop :: "pydict list \<Rightarrow> pyval \<Rightarrow> int \<Rightarrow> error + pyval \<times> int" where
  "respiration_loop [] tot cnt = Inr (tot, cnt)"
| "respiration_loop (entry # rest) tot cnt =
     (let value = dict_get entry ''averageRespirationValue''
      in if value \<noteq> PyNone then
           (case py_add tot value of
              Inl e \<Rightarrow> Inl e
            | Inr tot' \<Rightarrow> respiration_loop rest tot' (cnt + 1))
         else respiration_loop rest tot cnt)"

definition get_average_respiration :: "pydict list \<Rightarrow> error + pyfloat option" where
  "get_average_respiration respiration_data =
     (if respiration_data = [] then Inr None
      else case respiration_loop respiration_data (PyInt 0) 0 of
        Inl e \<Rightarrow> Inl e
      | Inr (tot, cnt) \<Rightarrow>
          if cnt = 0 then Inr None
          else (case py_truediv tot cnt of
                  Inl e \<Rightarrow> Inl e
                | Inr avg \<Rightarrow> Inr (Some avg)))"

text \<open>
  The specification's view of the same data, read off the records themselves: the
  values that are present (stored under the key and not \<^verbatim>\<open>None\<close>), in the order of
  the records that carry them; those of them that are ints; and the mean as Python
  computes \<^verbatim>\<open>sum(values) / len(values)\<close>, adding from the left, starting from the int
  \<^verbatim>\<open>0\<close>.
\<close>

definition present_values :: "pydict list \<Rightarrow> pyval list" where
  "present_values respiration_data =
     filter (\<lambda>value. value \<noteq> PyNone)
       (map (\<lambda>entry. case map_of entry ''averageRespirationValue'' of
                        None \<Rightarrow> PyNone | Some v \<Rightarrow> v) respiration_data)"

definition present_ints :: "pydict list \<Rightarrow> int list" where
  "present_ints respiration_data = [i. PyInt i \<leftarrow> present_values respiration_data]"

fun python_sum :: "pyval \<Rightarrow> pyval list \<Rightarrow> error + pyval" where
  "python_sum start [] = Inr start"
| "python_sum start (v # vs) =
     (case py_add start v of Inl e \<Rightarrow> Inl e | Inr s \<Rightarrow> python_sum s vs)"

definition python_mean :: "pyval list \<Rightarrow> error + pyfloat option" where
  "python_mean vs =
     (case python_sum (PyInt 0) vs of
        Inl e \<Rightarrow> Inl e
      | Inr s \<Rightarrow>
          (case py_truediv s (int (length vs)) of
             Inl e \<Rightarrow> Inl e
           | Inr avg \<Rightarrow> Inr (Some avg)))"

section \<open>The world of one run\<close>

text \<open>
  \<^verbatim>\<open>sync_health\<close> reads the process environment and talks to two external services.
  Everything outside the script is gathered in a \<open>world\<close>: the environment as it is
  after \<^verbatim>\<open>load_dotenv()\<close>, today's date in ISO format, and what each call to a
  collaborator does in this run (it returns a value or raises).
\<close>

text \<open>
  A row (page) sent to the notes service:
  \<^verbatim>\<open>parent={"database_id": ...}, properties={"Date": {"date": {"start": ...}},
  <name>: {"number": ...}}\<close>.
\<close>

record page =
  database_id :: string
  date_start :: string
  number_name :: string
  number_value :: pyval

record world =
  env :: "string \<rightharpoonup> string"
  today :: string
  login :: "exn option"
  get_heart_rates :: "string \<Rightarrow> exn + pydict option"
  get_respiration_data :: "string \<Rightarrow> exn + pydict list option"
  pages_create :: "page \<Rightarrow> exn option"
  round2 :: "pyfloat \<Rightarrow> pyfloat"

text \<open>
  \<open>login w\<close> and \<open>pages_create w p\<close> are \<open>None\<close> when the call returns and \<open>Some e\<close>
  when it raises \<open>e\<close>; the two fetch calls return \<open>Inr\<close> of their data (which may be
  \<^verbatim>\<open>None\<close>) or \<open>Inl\<close> of the exception. \<open>round2 w x\<close> is Python's built-in
  \<^verbatim>\<open>round(x, 2)\<close> on a float, left as a parameter.

  What a run does is observed in a \<open>run\<close>: the calls made to the services and the lines
  printed, in order, the rows the notes service has created, and the exception that ended
  the run, if any.
\<close>

datatype diag =
    CouldNotFetchHeartRate exn
  | UploadedHeartRate string
  | CouldNotFetchRespiration exn
  | UploadedRespiration string

datatype event =
    Login string string
  | GetHeartRates string
  | GetRespirationData string
  | PagesCreate page
  | Print diag

record run =
  raised :: "error option"
  trace :: "event list"
  rows :: "page list"

definition emit :: "event list \<Rightarrow> run \<Rightarrow> run" where
  "emit es s = s\<lparr>trace := trace s @ es\<rparr>"

text \<open>Python truthiness of the values the script tests.\<close>

definition truthy :: "string option \<Rightarrow> bool" where
  "truthy s = (case s of None \<Rightarrow> False | Some v \<Rightarrow> v \<noteq> [])"

definition truthy_val :: "pyval \<Rightarrow> bool" where
  "truthy_val x =
     (case x of
        PyNone \<Rightarrow> False
      | PyInt i \<Rightarrow> i \<noteq> 0
      | PyFloat f \<Rightarrow> f \<noteq> Finite 0
      | PyStr s \<Rightarrow> s \<noteq> [])"

definition truthy_data :: "'a list option \<Rightarrow> bool" where
  "truthy_data d = (case d of None \<Rightarrow> False | Some xs \<Rightarrow> xs \<noteq> [])"

text \<open>
  \<^verbatim>\<open>notion.pages.create(...)\<close>: the call is made; if it raises, the exception is the
  run's, since no handler surrounds it; otherwise the row exists and the success line
  \<open>done\<close> is printed.
\<close>

definition create_page :: "world \<Rightarrow> page \<Rightarrow> diag \<Rightarrow> run \<Rightarrow> run" where
  "create_page w p done s =
     (case pages_create w p of
        Some e \<Rightarrow> (emit [PagesCreate p] s)\<lparr>raised := Some (Propagated e)\<rparr>
      | None \<Rightarrow> (emit [PagesCreate p, Print done] s)\<lparr>rows := rows s @ [p]\<rparr>)"

section \<open>The orchestrator\<close>

text \<open>
  The two payloads. The heart-rate row carries
  \<^verbatim>\<open>resting_hr if resting_hr else 0\<close>; the respiration row carries the float it is
  given, which the caller has rounded.
\<close>

definition heart_rate_page :: "string \<Rightarrow> string \<Rightarrow> pyval \<Rightarrow> page" where
  "heart_rate_page heart_db_id today_str resting_hr =
     \<lparr>database_id = heart_db_id,
      date_start = today_str,
      number_name = ''Resting Heart Rate'',
      number_value = (if truthy_val resting_hr then resting_hr else PyInt 0)\<rparr>"

definition respiration_page :: "string \<Rightarrow> string \<Rightarrow> pyfloat \<Rightarrow> page" where
  "respiration_page resp_db_id today_str rounded =
     \<lparr>database_id = resp_db_id,
      date_start = today_str,
      number_name = ''Average Respiration'',
      number_value = PyFloat rounded\<rparr>"

text \<open>
  Lines 54 to 72 of \<^verbatim>\<open>garmin_health.py\<close>:
  \<^verbatim>\<open>
  try:
      hr_data = garmin.get_heart_rates(today_str)
  except Exception as e:
      print(f"Could not fetch heart-rate data: {e}")
      hr_data = None
  if hr_data and heart_db_id:
      resting_hr = hr_data.get('restingHeartRate')
      notion.pages.create(
          parent={"database_id": heart_db_id},
          properties={
              "Date": {"date": {"start": today_str}},
              "Resting Heart Rate": {"number": resting_hr if resting_hr else 0},
          },
      )
      print(f"Uploaded heart-rate data for {today_str}")
  \<close>
\<close>

definition heart_rate_phase :: "world \<Rightarrow> string option \<Rightarrow> string \<Rightarrow> run \<Rightarrow> run" where
  "heart_rate_phase w heart_db_id today_str s =
     (case (case get_heart_rates w today_str of
              Inr d \<Rightarrow> (d, emit [GetHeartRates today_str] s)
            | Inl e \<Rightarrow>
                (None, emit [GetHeartRates today_str, Print (CouldNotFetchHeartRate e)] s))
      of (hr_data, s1) \<Rightarrow>
        if truthy_data hr_data \<and> truthy heart_db_id then
          (let resting_hr = dict_get (the hr_data) ''restingHeartRate''
           in create_page w (heart_rate_page (the heart_db_id) today_str resting_hr)
                (UploadedHeartRate today_str) s1)
        else s1)"

text \<open>
  Lines 74 to 91; the call of \<^verbatim>\<open>get_average_respiration\<close> stands outside the
  \<^verbatim>\<open>try\<close>, so an exception it raises ends the run:
  \<^verbatim>\<open>
  try:
      resp_data = garmin.get_respiration_data(today_str)
  except Exception as e:
      print(f"Could not fetch respiration data: {e}")
      resp_data = None
  if resp_data and resp_db_id:
      avg_resp = get_average_respiration(resp_data)
      if avg_resp is not None:
          notion.pages.create(
              parent={"database_id": resp_db_id},
              properties={
                  "Date": {"date": {"start": today_str}},
                  "Average Respiration": {"number": round(avg_resp, 2)},
              },
          )
          print(f"Uploaded respiration data for {today_str}")
  \<close>
\<close>

definition respiration_phase :: "world \<Rightarrow> string option \<Rightarrow> string \<Rightarrow> run \<Rightarrow> run" where
  "respiration_phase w resp_db_id today_str s =
     (case (case get_respiration_data w today_str of
              Inr d \<Rightarrow> (d, emit [GetRespirationData today_str] s)
            | Inl e \<Rightarrow>
                (None, emit [GetRespirationData today_str, Print (CouldNotFetchRespiration e)] s))
      of (resp_data, s1) \<Rightarrow>
        if truthy_data resp_data \<and> truthy resp_db_id then
          (case get_average_respiration (the resp_data) of
             Inl e \<Rightarrow> s1\<lparr>raised := Some e\<rparr>
           | Inr None \<Rightarrow> s1
           | Inr (Some avg_resp) \<Rightarrow>
               create_page w (respiration_page (the resp_db_id) today_str (round2 w avg_resp))
                 (UploadedRespiration today_str) s1)
        else s1)"

text \<open>
  \<^verbatim>\<open>sync_health\<close> itself (lines 35 to 52, then the two phases). The credentials are
  checked with \<^verbatim>\<open>all([...])\<close>, that is by truthiness; \<^verbatim>\<open>garmin.login()\<close> is the first
  call to a service, and an exception from it, or from a row creation, ends the run.
\<close>

definition sync_health :: "world \<Rightarrow> run" where
  "sync_health w =
     (let garmin_email = env w ''GARMIN_EMAIL'';
          garmin_password = env w ''GARMIN_PASSWORD'';
          notion_token = env w ''NOTION_TOKEN'';
          heart_db_id = env w ''NOTION_HEART_RATE_DB_ID'';
          resp_db_id = env w ''NOTION_RESPIRATION_DB_ID''
      in if \<not> (truthy garmin_email \<and> truthy garmin_password \<and> truthy notion_token) then
           \<lparr>raised = Some (ValueError ''Missing Garmin or Notion credentials in environment''),
            trace = [], rows = []\<rparr>
         else
           (let s0 = \<lparr>raised = None,
                      trace = [Login (the garmin_email) (the garmin_password)],
                      rows = []\<rparr>
            in case login w of
                 Some e \<Rightarrow> s0\<lparr>raised := Some (Propagated e)\<rparr>
               | None \<Rightarrow>
                   (let today_str = today w;
                        s1 = heart_rate_phase w heart_db_id today_str s0
                    in if raised s1 \<noteq> None then s1
                       else respiration_phase w resp_db_id today_str s1)))"

text \<open>The rows of one metric, told apart by the name of their numeric field.\<close>

definition heart_rate_calls :: "run \<Rightarrow> page list" where
  "heart_rate_calls s =
     [p. PagesCreate p \<leftarrow> trace s, number_name p = ''Resting Heart Rate'']"

definition respiration_calls :: "run \<Rightarrow> page list" where
  "respiration_calls s =
     [p. PagesCreate p \<leftarrow> trace s, number_name p = ''Average Respiration'']"

text \<open>
  Names for the stages of a run, used to state its properties: whether the three
  required settings pass the check of line 44, the run just after a successful login, and
  the run after the heart-rate phase.
\<close>

definition credentials_ok :: "world \<Rightarrow> bool" where
  "credentials_ok w \<longleftrightarrow>
     truthy (env w ''GARMIN_EMAIL'') \<and> truthy (env w ''GARMIN_PASSWORD'')
     \<and> truthy (env w ''NOTION_TOKEN'')"

definition logged_in :: "world \<Rightarrow> run" where
  "logged_in w =
     \<lparr>raised = None,
      trace = [Login (the (env w ''GARMIN_EMAIL'')) (the (env w ''GARMIN_PASSWORD''))],
      rows = []\<rparr>"

definition after_heart_rate :: "world \<Rightarrow> run" where
  "after_heart_rate w =
     heart_rate_phase w (env w ''NOTION_HEART_RATE_DB_ID'') (today w) (logged_in w)"

section \<open>Sample worlds\<close>

text \<open>
  A day on which everything is configured, both fetches return data and every call
  succeeds; the respiration samples are the specification's example, and rounding to two
  decimals leaves a number with at most two decimals as it is. The other worlds differ
  from it in one respect each.
\<close>

definition sample_env :: "string \<rightharpoonup> string" where
  "sample_env =
     map_of [(''GARMIN_EMAIL'', ''runner@example.org''),
             (''GARMIN_PASSWORD'', ''secret''),
             (''NOTION_TOKEN'', ''ntn_token''),
             (''NOTION_HEART_RATE_DB_ID'', ''hr-db''),
             (''NOTION_RESPIRATION_DB_ID'', ''resp-db'')]"

definition sample_world :: world where
  "sample_world =
     \<lparr>env = sample_env,
      today = ''2024-05-01'',
      login = None,
      get_heart_rates = (\<lambda>d. Inr (Some [(''restingHeartRate'', PyInt 52)])),
      get_respiration_data =
        (\<lambda>d. Inr (Some [[(''averageRespirationValue'', PyInt 14)],
                          [(''averageRespirationValue'', PyNone)],
                          [(''averageRespirationValue'', PyInt 16)]])),
      pages_create = (\<lambda>p. None),
      round2 = (\<lambda>x. x)\<rparr>"

section \<open>Evaluating the arithmetic\<close>

lemma bitlen_numeral: "bitlen (numeral n) = bitlen (numeral n div 2) + 1"
  by (subst compute_bitlen) simp

lemma bitlen_one: "bitlen 1 = 1"
  by (subst compute_bitlen) simp

lemma floor_rat_numeral:
  "\<lfloor>numeral a / numeral b :: rat\<rfloor> = numeral a div numeral b"
  "\<lfloor>- (numeral a / numeral b) :: rat\<rfloor> = - numeral a div numeral b"
  "\<lfloor>1 / numeral b :: rat\<rfloor> = 1 div numeral b"
  "\<lfloor>- (1 / numeral b) :: rat\<rfloor> = - 1 div numeral b"
  using floor_divide_of_int_eq [of "numeral a" "numeral b", where ?'a = rat]
    floor_divide_of_int_eq [of "- numeral a" "numeral b", where ?'a = rat]
    floor_divide_of_int_eq [of 1 "numeral b", where ?'a = rat]
    floor_divide_of_int_eq [of "- 1" "numeral b", where ?'a = rat]
  by simp_all

lemma ceiling_rat_numeral:
  "\<lceil>numeral a / numeral b :: rat\<rceil> = - (- numeral a div numeral b)"
  "\<lceil>1 / numeral b :: rat\<rceil> = - (- 1 div numeral b)"
  using floor_divide_of_int_eq [of "- numeral a" "numeral b", where ?'a = rat]
    floor_divide_of_int_eq [of "- 1" "numeral b", where ?'a = rat]
  by (simp_all add: ceiling_def)

lemmas float_eval =
  round_double_def floor_log2_def pow2_def round_half_even_def Let_def
  bitlen_numeral bitlen_one floor_rat_numeral ceiling_rat_numeral

text \<open>
  \<open>floor_log2\<close> finds the binade of a positive rational, which is what the spacing of
  the doubles depends on.
\<close>

lemma floor_log2_ge_one:
  assumes "1 \<le> x"
  shows "pow2 (floor_log2 x) \<le> x \<and> x < pow2 (floor_log2 x + 1)"
proof -
  let ?n = "\<lfloor>x\<rfloor>"
  from assms have n: "0 < ?n" by simp
  from bitlen_bounds [OF n]
  have lo: "2 ^ nat (bitlen ?n - 1) \<le> ?n" and hi: "?n < 2 ^ nat (bitlen ?n)"
    by simp_all
  from n have b: "1 \<le> bitlen ?n"
    by (simp add: bitlen_alt_def)
  have "rat_of_int (2 ^ nat (bitlen ?n - 1)) \<le> of_int ?n"
    using lo by (simp only: of_int_le_iff)
  also have "\<dots> \<le> x" by simp
  finally have 1: "pow2 (bitlen ?n - 1) \<le> x"
    using b by (simp add: pow2_def)
  from hi have "?n + 1 \<le> 2 ^ nat (bitlen ?n)" by simp
  then have "rat_of_int (?n + 1) \<le> of_int (2 ^ nat (bitlen ?n))"
    by (simp only: of_int_le_iff)
  moreover have "x < of_int (?n + 1)" by linarith
  ultimately have 2: "x < pow2 (bitlen ?n)"
    using b by (simp add: pow2_def)
  from 1 2 assms show ?thesis
    by (simp add: floor_log2_def)
qed

lemma floor_log2_lt_one:
  assumes "0 < x" and "x < 1"
  shows "pow2 (floor_log2 x) \<le> x \<and> x < pow2 (floor_log2 x + 1)"
proof -
  let ?y = "1 / x"
  let ?m = "\<lceil>?y\<rceil> - 1"
  from assms have y: "1 < ?y" by simp
  then have m: "0 < ?m" by linarith
  from bitlen_bounds [OF m]
  have lo: "2 ^ nat (bitlen ?m - 1) \<le> ?m" and hi: "?m < 2 ^ nat (bitlen ?m)"
    by simp_all
  from m have b: "1 \<le> bitlen ?m"
    by (simp add: bitlen_alt_def)
  have "rat_of_int (2 ^ nat (bitlen ?m - 1)) \<le> of_int ?m"
    using lo by (simp only: of_int_le_iff)
  also have "\<dots> < ?y" by linarith
  finally have up: "2 ^ nat (bitlen ?m - 1) < ?y" by simp
  from hi have "?m + 1 \<le> 2 ^ nat (bitlen ?m)" by simp
  then have "rat_of_int (?m + 1) \<le> of_int (2 ^ nat (bitlen ?m))"
    by (simp only: of_int_le_iff)
  moreover have "?y \<le> of_int (?m + 1)" by simp
  ultimately have "?y \<le> rat_of_int (2 ^ nat (bitlen ?m))"
    by (rule order_trans [rotated])
  then have dn: "?y \<le> 2 ^ nat (bitlen ?m)" by simp
  from dn assms(1) have 1: "1 / 2 ^ nat (bitlen ?m) \<le> x"
    by (simp add: field_simps)
  from up assms(1) have 2: "x < 1 / 2 ^ nat (bitlen ?m - 1)"
    by (simp add: field_simps)
  have p1: "pow2 (- bitlen ?m) = 1 / 2 ^ nat (bitlen ?m)"
    using b by (simp add: pow2_def)
  have p2: "pow2 (1 - bitlen ?m) = 1 / 2 ^ nat (bitlen ?m - 1)"
    using b by (cases "bitlen ?m = 1") (simp_all add: pow2_def)
  from 1 2 assms show ?thesis
    by (simp add: floor_log2_def p1 p2)
qed

lemma floor_log2_bounds:
  "0 < x \<Longrightarrow> pow2 (floor_log2 x) \<le> x \<and> x < pow2 (floor_log2 x + 1)"
  using floor_log2_ge_one [of x] floor_log2_lt_one [of x] by (cases "1 \<le> x") simp_all

text \<open>Some values of the rounding, as Python gives them.\<close>

lemma round_double_third:
  "round_double (1 / 3) = Finite (6004799503160661 / 18014398509481984)"
  by (simp add: float_eval)

lemma round_double_small_ints:
  "round_double 1 = Finite 1" "round_double 3 = Finite 3" "round_double 15 = Finite 15"
  by (simp_all add: float_eval)

lemma round_double_2_53: "round_double (2 ^ 53 + 1) = Finite (2 ^ 53)"
  by (simp add: float_eval)

lemma round_double_1e16:
  "round_double (10 ^ 16) = Finite (10 ^ 16)"
  "round_double (10 ^ 16 + 1) = Finite (10 ^ 16)"
  by (simp_all add: float_eval)

lemma round_double_1e309: "round_double (10 ^ 309) = PosInf"
  by (simp add: float_eval)

section \<open>Properties of the aggregator\<close>

lemma present_values_dict_get:
  "present_values xs =
     filter (\<lambda>value. value \<noteq> PyNone)
       (map (\<lambda>entry. dict_get entry ''averageRespirationValue'') xs)"
  by (simp add: present_values_def dict_get_def)

lemma present_values_Nil: "present_values [] = []"
  by (simp add: present_values_def)

lemma present_values_Cons:
  "present_values (entry # rest) =
     (if dict_get entry ''averageRespirationValue'' = PyNone then present_values rest
      else dict_get entry ''averageRespirationValue'' # present_values rest)"
  by (simp add: present_values_dict_get)

lemma present_values_append:
  "present_values (xs @ ys) = present_values xs @ present_values ys"
  by (simp add: present_values_def)

lemma present_values_empty_iff:
  "present_values xs = [] \<longleftrightarrow>
     (\<forall>entry\<in>set xs. dict_get entry ''averageRespirationValue'' = PyNone)"
  by (auto simp: present_values_dict_get filter_empty_conv)

lemma respiration_loop_sum:
  "respiration_loop xs tot cnt =
     (case python_sum tot (present_values xs) of
        Inl e \<Rightarrow> Inl e
      | Inr s \<Rightarrow> Inr (s, cnt + int (length (present_values xs))))"
proof (induction xs arbitrary: tot cnt)
  case Nil
  show ?case by (simp add: present_values_Nil)
next
  case (Cons entry rest)
  show ?case
  proof (cases "dict_get entry ''averageRespirationValue'' = PyNone")
    case True
    then have pv: "present_values (entry # rest) = present_values rest"
      by (simp add: present_values_Cons)
    show ?thesis
      unfolding pv using True by (simp add: Cons.IH)
  next
    case False
    then have pv: "present_values (entry # rest) =
                 dict_get entry ''averageRespirationValue'' # present_values rest"
      by (simp add: present_values_Cons)
    show ?thesis
      unfolding pv using False
      by (cases "py_add tot (dict_get entry ''averageRespirationValue'')")
         (simp_all add: Cons.IH split: sum.split)
  qed
qed

lemma get_average_respiration_present:
  "get_average_respiration xs =
     (if present_values xs = [] then Inr None else python_mean (present_values xs))"
proof (cases "xs = []")
  case True
  then show ?thesis
    by (simp add: get_average_respiration_def present_values_Nil)
next
  case False
  show ?thesis
  proof (cases "present_values xs = []")
    case True
    with False show ?thesis
      by (simp add: get_average_respiration_def respiration_loop_sum)
  next
    case present: False
    with False show ?thesis
      by (cases "python_sum (PyInt 0) (present_values xs)")
         (simp_all add: get_average_respiration_def respiration_loop_sum python_mean_def)
  qed
qed

lemma python_sum_ints:
  "\<forall>v\<in>set vs. \<exists>i. v = PyInt i \<Longrightarrow>
     python_sum (PyInt t) vs = Inr (PyInt (t + sum_list [i. PyInt i \<leftarrow> vs]))
     \<and> length [i. PyInt i \<leftarrow> vs] = length vs"
proof (induction vs arbitrary: t)
  case Nil
  show ?case by simp
next
  case (Cons v vs)
  then obtain i where v: "v = PyInt i" by auto
  from Cons.prems have "\<forall>v\<in>set vs. \<exists>i. v = PyInt i" by simp
  from Cons.IH [OF this, of "t + i"] show ?case
    by (simp add: v add.assoc)
qed

lemma python_mean_ints:
  assumes "vs \<noteq> []" and "\<forall>v\<in>set vs. \<exists>i. v = PyInt i"
  shows "python_mean vs =
           (case round_double (of_int (sum_list [i. PyInt i \<leftarrow> vs])
                               / of_int (int (length [i. PyInt i \<leftarrow> vs]))) of
              Finite r \<Rightarrow> Inr (Some (Finite r))
            | _ \<Rightarrow> Inl OverflowError)"
proof -
  from python_sum_ints [OF assms(2), of 0]
  have s: "python_sum (PyInt 0) vs = Inr (PyInt (sum_list [i. PyInt i \<leftarrow> vs]))"
    and l: "length [i. PyInt i \<leftarrow> vs] = length vs"
    by simp_all
  from assms(1) have "int (length vs) \<noteq> 0" by simp
  then show ?thesis
    by (simp add: python_mean_def s l int_true_divide_def finite_or_overflow_def
          split: pyfloat.split)
qed

lemma ints_mset:
  "mset vs = mset ws \<Longrightarrow> mset [i. PyInt i \<leftarrow> vs] = mset [i. PyInt i \<leftarrow> ws]"
proof -
  assume eq: "mset vs = mset ws"
  have "mset [i. PyInt i \<leftarrow> zs] =
          \<Sum>\<^sub># (image_mset (\<lambda>v. case v of PyInt i \<Rightarrow> {#i#} | _ \<Rightarrow> {#}) (mset zs))" for zs
    by (induction zs) (simp_all split: pyval.split)
  with eq show ?thesis by simp
qed

lemma present_values_mset:
  "mset xs = mset ys \<Longrightarrow> mset (present_values xs) = mset (present_values ys)"
proof -
  assume eq: "mset xs = mset ys"
  have "mset (present_values zs) =
          filter_mset (\<lambda>value. value \<noteq> PyNone)
            (image_mset (\<lambda>entry. dict_get entry ''averageRespirationValue'') (mset zs))"
    for zs
    by (simp add: present_values_dict_get)
  with eq show ?thesis by simp
qed

lemma get_average_respiration_ints:
  assumes "present_values xs \<noteq> []"
    and "\<forall>v\<in>set (present_values xs). \<exists>i. v = PyInt i"
  shows "get_average_respiration xs =
           (case round_double (of_int (sum_list (present_ints xs))
                               / of_int (int (length (present_ints xs)))) of
              Finite r \<Rightarrow> Inr (Some (Finite r))
            | _ \<Rightarrow> Inl OverflowError)"
  using python_mean_ints [OF assms] assms(1)
  by (simp add: get_average_respiration_present present_ints_def)




text \<open>
  C6. For the empty sequence, and for a sequence in which no record has a present
  \<^verbatim>\<open>averageRespirationValue\<close>, the aggregator returns \<^verbatim>\<open>None\<close>: the result is
  \<open>Inr None\<close>, neither a zero nor an exception.
\<close>

theorem get_average_respiration_no_value:
  assumes "respiration_data = [] \<or>
           (\<forall>entry\<in>set respiration_data.
              dict_get entry ''averageRespirationValue'' = PyNone)"
  shows "get_average_respiration respiration_data = Inr None"
proof -
  from assms have "present_values respiration_data = []"
    by (auto simp: present_values_empty_iff)
  then show ?thesis
    by (simp add: get_average_respiration_present)
qed

theorem get_average_respiration_no_value_witness:
  "get_average_respiration [] = Inr None
   \<and> get_average_respiration
        [[(''averageRespirationValue'', PyNone)], [(''other'', PyInt 3)], []] = Inr None"
proof -
  have "\<forall>entry\<in>set [[(''averageRespirationValue'', PyNone)], [(''other'', PyInt 3)], []].
          dict_get entry ''averageRespirationValue'' = PyNone"
    by (simp add: dict_get_def)
  then show ?thesis
    using get_average_respiration_no_value [of "[]"]
      get_average_respiration_no_value
        [of "[[(''averageRespirationValue'', PyNone)], [(''other'', PyInt 3)], []]"]
    by blast
qed

text \<open>
  C8. As stated the claim fails on float samples, whose sum is rounded at each step: the
  samples \<open>1e16\<close>, \<open>1.0\<close>, \<open>-1e16\<close> give \<open>0.0\<close> in this order and the double nearest to
  one third when the last two are exchanged.
\<close>

theorem get_average_respiration_permutation_counterexample:
  "mset [[(''averageRespirationValue'', PyFloat (Finite (10 ^ 16)))],
         [(''averageRespirationValue'', PyFloat (Finite 1))],
         [(''averageRespirationValue'', PyFloat (Finite (- (10 ^ 16))))]]
     = mset [[(''averageRespirationValue'', PyFloat (Finite (10 ^ 16)))],
             [(''averageRespirationValue'', PyFloat (Finite (- (10 ^ 16))))],
             [(''averageRespirationValue'', PyFloat (Finite 1))]]
   \<and> get_average_respiration
        [[(''averageRespirationValue'', PyFloat (Finite (10 ^ 16)))],
         [(''averageRespirationValue'', PyFloat (Finite 1))],
         [(''averageRespirationValue'', PyFloat (Finite (- (10 ^ 16))))]]
     = Inr (Some (Finite 0))
   \<and> get_average_respiration
        [[(''averageRespirationValue'', PyFloat (Finite (10 ^ 16)))],
         [(''averageRespirationValue'', PyFloat (Finite (- (10 ^ 16))))],
         [(''averageRespirationValue'', PyFloat (Finite 1))]]
     = Inr (Some (Finite (6004799503160661 / 18014398509481984)))"
proof -
  have z: "round_double 0 = Finite 0"
    by (simp add: round_double_def)
  have conv: "float_of_int 0 = Inr (Finite 0)" "float_of_int 3 = Inr (Finite 3)"
    by (simp_all add: float_of_int_def finite_or_overflow_def z round_double_small_ints)
  have p: "mset [[(''averageRespirationValue'', PyFloat (Finite (10 ^ 16)))],
         [(''averageRespirationValue'', PyFloat (Finite 1))],
         [(''averageRespirationValue'', PyFloat (Finite (- (10 ^ 16))))]]
     = mset [[(''averageRespirationValue'', PyFloat (Finite (10 ^ 16)))],
             [(''averageRespirationValue'', PyFloat (Finite (- (10 ^ 16))))],
             [(''averageRespirationValue'', PyFloat (Finite 1))]]"
    by (simp add: add_mset_commute)
  have a: "get_average_respiration
        [[(''averageRespirationValue'', PyFloat (Finite (10 ^ 16)))],
         [(''averageRespirationValue'', PyFloat (Finite 1))],
         [(''averageRespirationValue'', PyFloat (Finite (- (10 ^ 16))))]]
     = Inr (Some (Finite 0))"
    using round_double_1e16
    by (simp add: get_average_respiration_def dict_get_def conv float_div_def z
          round_double_small_ints)
  have b: "get_average_respiration
        [[(''averageRespirationValue'', PyFloat (Finite (10 ^ 16)))],
         [(''averageRespirationValue'', PyFloat (Finite (- (10 ^ 16))))],
         [(''averageRespirationValue'', PyFloat (Finite 1))]]
     = Inr (Some (Finite (6004799503160661 / 18014398509481984)))"
    using round_double_1e16
    by (simp add: get_average_respiration_def dict_get_def conv float_div_def z
          round_double_small_ints round_double_third)
  from p a b show ?thesis
    by blast
qed

text \<open>
  The same happens with values in the range of breathing rates: the doubles written
  \<^verbatim>\<open>13.1\<close>, \<^verbatim>\<open>14.2\<close>, \<^verbatim>\<open>15.3\<close> and \<^verbatim>\<open>16.7\<close> average to
  \<^verbatim>\<open>14.825\<close> in this order and to \<^verbatim>\<open>14.825000000000001\<close> when the first comes last.
\<close>

lemma get_average_respiration_order_of_floats:
  "get_average_respiration
     [[(''averageRespirationValue'', PyFloat (Finite (7374644389819187 / 562949953421312)))],
      [(''averageRespirationValue'', PyFloat (Finite (3996944669291315 / 281474976710656)))],
      [(''averageRespirationValue'', PyFloat (Finite (4306567143673037 / 281474976710656)))],
      [(''averageRespirationValue'', PyFloat (Finite (4700632111067955 / 281474976710656)))]]
     = Inr (Some (Finite (4172866529735475 / 281474976710656)))"
  "get_average_respiration
     [[(''averageRespirationValue'', PyFloat (Finite (3996944669291315 / 281474976710656)))],
      [(''averageRespirationValue'', PyFloat (Finite (4306567143673037 / 281474976710656)))],
      [(''averageRespirationValue'', PyFloat (Finite (4700632111067955 / 281474976710656)))],
      [(''averageRespirationValue'', PyFloat (Finite (7374644389819187 / 562949953421312)))]]
     = Inr (Some (Finite (8345733059470951 / 562949953421312)))"
  by (simp_all add: get_average_respiration_def dict_get_def float_of_int_def
        finite_or_overflow_def float_div_def float_eval)

text \<open>
  C8, amended. Where absent entries stand never matters: two sequences with the same
  present values in the same order get the same outcome. And when the present values are
  ints, two sequences that are permutations of each other (they have the same multiset of
  records) get the same outcome.
\<close>

theorem get_average_respiration_permutation:
  "(present_values xs = present_values ys \<longrightarrow>
      get_average_respiration xs = get_average_respiration ys)
   \<and> (mset xs = mset ys \<and> (\<forall>v\<in>set (present_values xs). \<exists>i. v = PyInt i) \<longrightarrow>
      get_average_respiration xs = get_average_respiration ys)"
proof (intro conjI impI)
  assume "present_values xs = present_values ys"
  then show "get_average_respiration xs = get_average_respiration ys"
    by (simp add: get_average_respiration_present)
next
  assume a: "mset xs = mset ys \<and> (\<forall>v\<in>set (present_values xs). \<exists>i. v = PyInt i)"
  then have ix: "\<forall>v\<in>set (present_values xs). \<exists>i. v = PyInt i"
    by (rule conjunct2)
  from a have "mset xs = mset ys"
    by (rule conjunct1)
  then have m: "mset (present_values xs) = mset (present_values ys)"
    by (rule present_values_mset)
  from m have "set_mset (mset (present_values xs)) = set_mset (mset (present_values ys))"
    by (rule arg_cong)
  then have "set (present_values xs) = set (present_values ys)"
    by simp
  with ix have iy: "\<forall>v\<in>set (present_values ys). \<exists>i. v = PyInt i"
    by simp
  from m have "length (present_values xs) = length (present_values ys)"
    by (rule mset_eq_length)
  then have e: "present_values xs = [] \<longleftrightarrow> present_values ys = []"
    by (cases "present_values xs"; cases "present_values ys") simp_all
  from m have mi: "mset (present_ints xs) = mset (present_ints ys)"
    unfolding present_ints_def by (rule ints_mset)
  from mi have "sum_mset (mset (present_ints xs)) = sum_mset (mset (present_ints ys))"
    by (rule arg_cong)
  then have s: "sum_list (present_ints xs) = sum_list (present_ints ys)"
    by (simp add: sum_mset_sum_list)
  from mi have l: "length (present_ints xs) = length (present_ints ys)"
    by (rule mset_eq_length)
  show "get_average_respiration xs = get_average_respiration ys"
  proof (cases "present_values xs = []")
    case True
    with e show ?thesis
      by (simp add: get_average_respiration_present)
  next
    case False
    with e have ny: "present_values ys \<noteq> []" by simp
    show ?thesis
      unfolding get_average_respiration_ints [OF False ix]
        get_average_respiration_ints [OF ny iy] s l ..
  qed
qed

theorem get_average_respiration_permutation_witness:
  "mset [[(''averageRespirationValue'', PyInt 14)], [],
         [(''averageRespirationValue'', PyInt 17)]]
     = mset [[], [(''averageRespirationValue'', PyInt 17)],
             [(''averageRespirationValue'', PyInt 14)]]
   \<and> present_values [[(''averageRespirationValue'', PyInt 14)], [],
                       [(''averageRespirationValue'', PyInt 17)]]
       = [PyInt 14, PyInt 17]
   \<and> get_average_respiration
        [[(''averageRespirationValue'', PyInt 14)], [],
         [(''averageRespirationValue'', PyInt 17)]]
     = get_average_respiration
        [[], [(''averageRespirationValue'', PyInt 17)],
         [(''averageRespirationValue'', PyInt 14)]]
   \<and> present_values [[(''averageRespirationValue'', PyFloat (Finite 1))], []]
     = present_values [[], [(''averageRespirationValue'', PyFloat (Finite 1))]]
   \<and> get_average_respiration [[(''averageRespirationValue'', PyFloat (Finite 1))], []]
     = get_average_respiration [[], [(''averageRespirationValue'', PyFloat (Finite 1))]]"
proof -
  have h: "mset [[(''averageRespirationValue'', PyInt 14)], [],
                 [(''averageRespirationValue'', PyInt 17)]]
     = mset [[], [(''averageRespirationValue'', PyInt 17)],
             [(''averageRespirationValue'', PyInt 14)]]"
    by (simp add: add_mset_commute)
  have i: "\<forall>v\<in>set (present_values [[(''averageRespirationValue'', PyInt 14)], [],
                                 [(''averageRespirationValue'', PyInt 17)]]).
        \<exists>i. v = PyInt i"
    by (simp add: present_values_def dict_get_def)
  have p: "present_values [[(''averageRespirationValue'', PyFloat (Finite 1))], []]
     = present_values [[], [(''averageRespirationValue'', PyFloat (Finite 1))]]"
    by (simp add: present_values_def dict_get_def)
  have v: "present_values [[(''averageRespirationValue'', PyInt 14)], [],
                           [(''averageRespirationValue'', PyInt 17)]]
             = [PyInt 14, PyInt 17]"
    by (simp add: present_values_def dict_get_def)
  show ?thesis
    using h i p v
      get_average_respiration_permutation
        [of "[[(''averageRespirationValue'', PyInt 14)], [],
              [(''averageRespirationValue'', PyInt 17)]]"
            "[[], [(''averageRespirationValue'', PyInt 17)],
              [(''averageRespirationValue'', PyInt 14)]]"]
      get_average_respiration_permutation
        [of "[[(''averageRespirationValue'', PyFloat (Finite 1))], []]"
            "[[], [(''averageRespirationValue'', PyFloat (Finite 1))]]"]
    by blast
qed

text \<open>
  C9. As stated the claim fails: on a record whose \<^verbatim>\<open>averageRespirationValue\<close> is a
  string, the addition raises \<^verbatim>\<open>TypeError\<close>.
\<close>

theorem get_average_respiration_raises_counterexample:
  "get_average_respiration [[(''averageRespirationValue'', PyStr ''n/a'')]] = Inl TypeError"
  by (simp add: get_average_respiration_def dict_get_def)

text \<open>
  C9, amended. A record that lacks the key \<^verbatim>\<open>averageRespirationValue\<close> is skipped,
  wherever it stands in the sequence, and is never the cause of an exception: the
  outcome, a result or an exception, is the one the sequence without that record gets,
  and a sequence of such records only gets \<^verbatim>\<open>None\<close>.
\<close>

theorem get_average_respiration_missing_field:
  "(map_of entry ''averageRespirationValue'' = None \<longrightarrow>
      get_average_respiration (xs @ entry # ys) = get_average_respiration (xs @ ys))
   \<and> ((\<forall>e\<in>set xs. map_of e ''averageRespirationValue'' = None) \<longrightarrow>
      get_average_respiration xs = Inr None)"
proof (intro conjI impI)
  assume "map_of entry ''averageRespirationValue'' = None"
  then have "dict_get entry ''averageRespirationValue'' = PyNone"
    by (simp add: dict_get_def)
  then have "present_values (xs @ entry # ys) = present_values (xs @ ys)"
    by (simp add: present_values_append present_values_Cons)
  then show "get_average_respiration (xs @ entry # ys) = get_average_respiration (xs @ ys)"
    by (simp add: get_average_respiration_present)
next
  assume "\<forall>e\<in>set xs. map_of e ''averageRespirationValue'' = None"
  then have "present_values xs = []"
    by (simp add: present_values_empty_iff dict_get_def)
  then show "get_average_respiration xs = Inr None"
    by (simp add: get_average_respiration_present)
qed

theorem get_average_respiration_missing_field_witness:
  "map_of [(''startTimeGMT'', PyInt 5)] ''averageRespirationValue'' = None
   \<and> get_average_respiration
        ([[(''averageRespirationValue'', PyInt 14)]] @ [(''startTimeGMT'', PyInt 5)]
           # [[(''averageRespirationValue'', PyInt 16)]])
     = Inr (Some (Finite 15))
   \<and> get_average_respiration
        ([[(''averageRespirationValue'', PyStr ''n/a'')]] @ [(''startTimeGMT'', PyInt 5)] # [])
     = Inl TypeError
   \<and> get_average_respiration [[(''startTimeGMT'', PyInt 5)], []] = Inr None"
proof -
  have h: "map_of [(''startTimeGMT'', PyInt 5)] ''averageRespirationValue'' = None"
    by simp
  have a: "get_average_respiration
          ([[(''averageRespirationValue'', PyInt 14)]]
             @ [[(''averageRespirationValue'', PyInt 16)]])
        = Inr (Some (Finite 15))"
    by (simp add: get_average_respiration_def dict_get_def int_true_divide_def
          finite_or_overflow_def round_double_small_ints)
  have b: "get_average_respiration ([[(''averageRespirationValue'', PyStr ''n/a'')]] @ [])
        = Inl TypeError"
    by (simp add: get_average_respiration_def dict_get_def)
  have c: "\<forall>e\<in>set [[(''startTimeGMT'', PyInt 5)], []].
             map_of e ''averageRespirationValue'' = None"
    by simp
  from a b c h show ?thesis
    using get_average_respiration_missing_field
        [of "[(''startTimeGMT'', PyInt 5)]" "[[(''averageRespirationValue'', PyInt 14)]]"
           "[[(''averageRespirationValue'', PyInt 16)]]", THEN conjunct1]
      get_average_respiration_missing_field
        [of "[(''startTimeGMT'', PyInt 5)]" "[[(''averageRespirationValue'', PyStr ''n/a'')]]"
           "[]", THEN conjunct1]
      get_average_respiration_missing_field
        [of _ "[[(''startTimeGMT'', PyInt 5)], []]", THEN conjunct2]
    by simp
qed

section \<open>Properties of a run\<close>

lemma raised_create_page:
  "raised (create_page w p d s) =
     (case pages_create w p of Some e \<Rightarrow> Some (Propagated e) | None \<Rightarrow> raised s)"
  by (simp add: create_page_def emit_def split: option.split)

lemma trace_create_page:
  "trace (create_page w p d s) =
     trace s @ PagesCreate p # (if pages_create w p = None then [Print d] else [])"
  by (simp add: create_page_def emit_def split: option.split)

lemma rows_create_page:
  "rows (create_page w p d s) =
     rows s @ (if pages_create w p = None then [p] else [])"
  by (simp add: create_page_def emit_def split: option.split)

lemma raised_emit: "raised (emit es s) = raised s"
  and trace_emit: "trace (emit es s) = trace s @ es"
  and rows_emit: "rows (emit es s) = rows s"
  by (simp_all add: emit_def)

lemma raised_heart_rate_phase:
  "raised (heart_rate_phase w h t s) = raised s
   \<or> (\<exists>e. raised (heart_rate_phase w h t s) = Some (Propagated e))"
  by (simp add: heart_rate_phase_def raised_create_page raised_emit Let_def
           split: sum.split option.split)

lemma py_add_error:
  "py_add a b = Inl e \<Longrightarrow> e = TypeError \<or> e = OverflowError"
  by (cases a; cases b)
     (auto simp: float_of_int_def finite_or_overflow_def split: pyfloat.splits sum.splits)

lemma py_truediv_error:
  "py_truediv a n = Inl e \<Longrightarrow> e = TypeError \<or> e = OverflowError \<or> e = ZeroDivisionError"
  by (cases a)
     (auto simp: float_of_int_def finite_or_overflow_def int_true_divide_def float_div_def
        split: pyfloat.splits sum.splits if_splits)

lemma python_sum_error:
  "python_sum start vs = Inl e \<Longrightarrow> e = TypeError \<or> e = OverflowError"
proof (induction vs arbitrary: start)
  case Nil
  then show ?case by simp
next
  case (Cons v vs)
  then show ?case
    by (cases "py_add start v") (auto dest: py_add_error)
qed

lemma get_average_respiration_error:
  assumes "get_average_respiration xs = Inl e"
  shows "e = TypeError \<or> e = OverflowError \<or> e = ZeroDivisionError"
proof (cases "python_sum (PyInt 0) (present_values xs)")
  case (Inl e')
  with assms have "e' = e"
    by (simp add: get_average_respiration_present python_mean_def split: if_splits)
  with Inl show ?thesis
    by (auto dest: python_sum_error)
next
  case (Inr total)
  with assms have "py_truediv total (int (length (present_values xs))) = Inl e"
    by (simp add: get_average_respiration_present python_mean_def
          split: if_splits sum.splits)
  then show ?thesis
    by (rule py_truediv_error)
qed

lemma raised_respiration_phase:
  "raised (respiration_phase w h t s) = raised s
   \<or> (\<exists>e. raised (respiration_phase w h t s) = Some (Propagated e))
   \<or> raised (respiration_phase w h t s) = Some TypeError
   \<or> raised (respiration_phase w h t s) = Some OverflowError
   \<or> raised (respiration_phase w h t s) = Some ZeroDivisionError"
proof (cases "get_respiration_data w t")
  case (Inl e)
  then show ?thesis
    by (simp add: respiration_phase_def raised_emit truthy_data_def)
next
  case (Inr d)
  show ?thesis
  proof (cases "get_average_respiration (the d)")
    case (Inl e)
    from get_average_respiration_error [OF this] Inr Inl show ?thesis
      by (auto simp: respiration_phase_def raised_emit)
  next
    case r: (Inr avg)
    with Inr show ?thesis
      by (cases avg) (auto simp: respiration_phase_def raised_create_page raised_emit
                        split: option.split)
  qed
qed

lemma sync_health_not_ok:
  "\<not> credentials_ok w \<Longrightarrow> sync_health w =
         \<lparr>raised = Some (ValueError ''Missing Garmin or Notion credentials in environment''),
          trace = [], rows = []\<rparr>"
  by (simp add: sync_health_def credentials_ok_def Let_def)

lemma sync_health_login_raises:
  "credentials_ok w \<Longrightarrow> login w = Some e \<Longrightarrow>
     sync_health w = (logged_in w)\<lparr>raised := Some (Propagated e)\<rparr>"
  by (simp add: sync_health_def credentials_ok_def logged_in_def Let_def)

lemma sync_health_logged_in:
  "credentials_ok w \<Longrightarrow> login w = None \<Longrightarrow> sync_health w =
     (if raised (after_heart_rate w) \<noteq> None then after_heart_rate w
      else respiration_phase w (env w ''NOTION_RESPIRATION_DB_ID'') (today w)
             (after_heart_rate w))"
  by (simp add: sync_health_def credentials_ok_def Let_def logged_in_def after_heart_rate_def)

text \<open>The three ways through the heart-rate phase, and the four through the other.\<close>

lemma heart_rate_phase_fetch_raises:
  "get_heart_rates w t = Inl e \<Longrightarrow>
     heart_rate_phase w h t s = emit [GetHeartRates t, Print (CouldNotFetchHeartRate e)] s"
  by (simp add: heart_rate_phase_def truthy_data_def)

lemma heart_rate_phase_skip:
  "get_heart_rates w t = Inr d \<Longrightarrow> \<not> (truthy_data d \<and> truthy h) \<Longrightarrow>
     heart_rate_phase w h t s = emit [GetHeartRates t] s"
  by (auto simp: heart_rate_phase_def)

lemma heart_rate_phase_upload:
  "get_heart_rates w t = Inr d \<Longrightarrow> truthy_data d \<Longrightarrow> truthy h \<Longrightarrow>
     heart_rate_phase w h t s =
       create_page w (heart_rate_page (the h) t (dict_get (the d) ''restingHeartRate''))
         (UploadedHeartRate t) (emit [GetHeartRates t] s)"
  by (simp add: heart_rate_phase_def Let_def)

lemma respiration_phase_fetch_raises:
  "get_respiration_data w t = Inl e \<Longrightarrow>
     respiration_phase w h t s =
       emit [GetRespirationData t, Print (CouldNotFetchRespiration e)] s"
  by (simp add: respiration_phase_def truthy_data_def)

lemma respiration_phase_skip:
  "get_respiration_data w t = Inr d \<Longrightarrow> \<not> (truthy_data d \<and> truthy h) \<Longrightarrow>
     respiration_phase w h t s = emit [GetRespirationData t] s"
  by (auto simp: respiration_phase_def)

lemma respiration_phase_no_average:
  "get_respiration_data w t = Inr d \<Longrightarrow> get_average_respiration (the d) = Inr None \<Longrightarrow>
     respiration_phase w h t s = emit [GetRespirationData t] s"
  by (simp add: respiration_phase_def)

lemma respiration_phase_average_raises:
  "get_respiration_data w t = Inr d \<Longrightarrow> truthy_data d \<Longrightarrow> truthy h \<Longrightarrow>
   get_average_respiration (the d) = Inl e \<Longrightarrow>
     respiration_phase w h t s = (emit [GetRespirationData t] s)\<lparr>raised := Some e\<rparr>"
  by (simp add: respiration_phase_def)

lemma respiration_phase_upload:
  "get_respiration_data w t = Inr d \<Longrightarrow> truthy_data d \<Longrightarrow> truthy h \<Longrightarrow>
   get_average_respiration (the d) = Inr (Some avg) \<Longrightarrow>
     respiration_phase w h t s =
       create_page w (respiration_page (the h) t (round2 w avg))
         (UploadedRespiration t) (emit [GetRespirationData t] s)"
  by (simp add: respiration_phase_def)


lemma heart_rate_calls_iff:
  "p \<in> set (heart_rate_calls s) \<longleftrightarrow>
     PagesCreate p \<in> set (trace s) \<and> number_name p = ''Resting Heart Rate''"
proof -
  have "p \<in> set [q. PagesCreate q \<leftarrow> es, number_name q = ''Resting Heart Rate''] \<longleftrightarrow>
          PagesCreate p \<in> set es \<and> number_name p = ''Resting Heart Rate''" for es
    by (induction es) (auto split: event.splits)
  then show ?thesis
    by (simp add: heart_rate_calls_def)
qed

lemma respiration_calls_iff:
  "p \<in> set (respiration_calls s) \<longleftrightarrow>
     PagesCreate p \<in> set (trace s) \<and> number_name p = ''Average Respiration''"
proof -
  have "p \<in> set [q. PagesCreate q \<leftarrow> es, number_name q = ''Average Respiration''] \<longleftrightarrow>
          PagesCreate p \<in> set es \<and> number_name p = ''Average Respiration''" for es
    by (induction es) (auto split: event.splits)
  then show ?thesis
    by (simp add: respiration_calls_def)
qed

lemma heart_rate_phase_calls:
  "PagesCreate p \<in> set (trace (heart_rate_phase w h t s)) \<longleftrightarrow>
     PagesCreate p \<in> set (trace s)
     \<or> (\<exists>d. get_heart_rates w t = Inr d \<and> truthy_data d \<and> truthy h
            \<and> p = heart_rate_page (the h) t (dict_get (the d) ''restingHeartRate''))"
proof (cases "get_heart_rates w t")
  case (Inl e)
  then show ?thesis
    by (simp add: heart_rate_phase_fetch_raises trace_emit)
next
  case (Inr d)
  show ?thesis
  proof (cases "truthy_data d \<and> truthy h")
    case True
    with Inr show ?thesis
      by (auto simp: heart_rate_phase_upload trace_create_page trace_emit)
  next
    case False
    with Inr show ?thesis
      by (auto simp: heart_rate_phase_skip trace_emit)
  qed
qed

lemma respiration_phase_calls:
  "PagesCreate p \<in> set (trace (respiration_phase w h t s)) \<longleftrightarrow>
     PagesCreate p \<in> set (trace s)
     \<or> (\<exists>d avg. get_respiration_data w t = Inr d \<and> truthy_data d \<and> truthy h
            \<and> get_average_respiration (the d) = Inr (Some avg)
            \<and> p = respiration_page (the h) t (round2 w avg))"
proof (cases "get_respiration_data w t")
  case (Inl e)
  then show ?thesis
    by (simp add: respiration_phase_fetch_raises trace_emit)
next
  case (Inr d)
  show ?thesis
  proof (cases "truthy_data d \<and> truthy h")
    case False
    with Inr show ?thesis
      by (auto simp: respiration_phase_skip trace_emit)
  next
    case True
    show ?thesis
    proof (cases "get_average_respiration (the d)")
      case (Inl e)
      with Inr True show ?thesis
        by (auto simp: respiration_phase_average_raises trace_emit)
    next
      case r: (Inr avg)
      show ?thesis
      proof (cases avg)
        case None
        with Inr r show ?thesis
          by (auto simp: respiration_phase_no_average trace_emit)
      next
        case (Some a)
        with Inr True r show ?thesis
          by (auto simp: respiration_phase_upload trace_create_page trace_emit)
      qed
    qed
  qed
qed

lemma sync_health_calls:
  assumes "PagesCreate p \<in> set (trace (sync_health w))"
  shows "(\<exists>d. get_heart_rates w (today w) = Inr d \<and> truthy_data d
              \<and> truthy (env w ''NOTION_HEART_RATE_DB_ID'')
              \<and> p = heart_rate_page (the (env w ''NOTION_HEART_RATE_DB_ID'')) (today w)
                      (dict_get (the d) ''restingHeartRate''))
         \<or> (\<exists>d avg. get_respiration_data w (today w) = Inr d \<and> truthy_data d
              \<and> truthy (env w ''NOTION_RESPIRATION_DB_ID'')
              \<and> get_average_respiration (the d) = Inr (Some avg)
              \<and> p = respiration_page (the (env w ''NOTION_RESPIRATION_DB_ID'')) (today w)
                      (round2 w avg))"
proof (cases "credentials_ok w")
  case False
  with assms show ?thesis
    by (simp add: sync_health_not_ok)
next
  case ok: True
  show ?thesis
  proof (cases "login w")
    case (Some e)
    with ok assms show ?thesis
      by (simp add: sync_health_login_raises logged_in_def)
  next
    case None
    have "PagesCreate p \<notin> set (trace (logged_in w))"
      by (simp add: logged_in_def)
    with assms show ?thesis
      unfolding sync_health_logged_in [OF ok None] after_heart_rate_def
      by (auto simp: heart_rate_phase_calls respiration_phase_calls split: if_splits)
  qed
qed

lemma page_names:
  "number_name (heart_rate_page h t r) = ''Resting Heart Rate''"
  "number_name (respiration_page h t x) = ''Average Respiration''"
  by (simp_all add: heart_rate_page_def respiration_page_def)

lemma truthy_data_Some: "truthy_data d \<longleftrightarrow> (\<exists>xs. d = Some xs \<and> xs \<noteq> [])"
  by (cases d) (simp_all add: truthy_data_def)

text \<open>
  C3. If \<^verbatim>\<open>GARMIN_EMAIL\<close>, \<^verbatim>\<open>GARMIN_PASSWORD\<close> or \<^verbatim>\<open>NOTION_TOKEN\<close> is absent from
  the environment, the run ends with the configuration error, having made no call to a
  service (its trace is empty) and created no row. When the three are set, the run does
  not end with a \<^verbatim>\<open>ValueError\<close>, whatever the two table identifiers are, absent
  included.
\<close>

theorem sync_health_missing_credentials:
  "(env w ''GARMIN_EMAIL'' = None \<or> env w ''GARMIN_PASSWORD'' = None
      \<or> env w ''NOTION_TOKEN'' = None
    \<longrightarrow> sync_health w =
         \<lparr>raised = Some (ValueError ''Missing Garmin or Notion credentials in environment''),
          trace = [], rows = []\<rparr>)
   \<and> (truthy (env w ''GARMIN_EMAIL'') \<and> truthy (env w ''GARMIN_PASSWORD'')
        \<and> truthy (env w ''NOTION_TOKEN'')
      \<longrightarrow> (\<forall>m. raised (sync_health w) \<noteq> Some (ValueError m)))"
proof (intro conjI impI allI)
  assume "env w ''GARMIN_EMAIL'' = None \<or> env w ''GARMIN_PASSWORD'' = None
      \<or> env w ''NOTION_TOKEN'' = None"
  then have "\<not> credentials_ok w"
    by (auto simp: credentials_ok_def truthy_def)
  then show "sync_health w =
         \<lparr>raised = Some (ValueError ''Missing Garmin or Notion credentials in environment''),
          trace = [], rows = []\<rparr>"
    by (rule sync_health_not_ok)
next
  fix m
  assume "truthy (env w ''GARMIN_EMAIL'') \<and> truthy (env w ''GARMIN_PASSWORD'')
        \<and> truthy (env w ''NOTION_TOKEN'')"
  then have ok: "credentials_ok w"
    by (simp add: credentials_ok_def)
  show "raised (sync_health w) \<noteq> Some (ValueError m)"
  proof (cases "login w")
    case (Some e)
    with ok show ?thesis by (simp add: sync_health_login_raises)
  next
    case None
    have a: "raised (after_heart_rate w) \<noteq> Some (ValueError m)"
      using raised_heart_rate_phase
        [of w "env w ''NOTION_HEART_RATE_DB_ID''" "today w" "logged_in w"]
      by (auto simp: after_heart_rate_def logged_in_def)
    show ?thesis
    proof (cases "raised (after_heart_rate w) = None")
      case True
      then show ?thesis
        using raised_respiration_phase
          [of w "env w ''NOTION_RESPIRATION_DB_ID''" "today w" "after_heart_rate w"]
        by (auto simp: sync_health_logged_in [OF ok None])
    next
      case False
      with a show ?thesis
        by (simp add: sync_health_logged_in [OF ok None])
    qed
  qed
qed

theorem sync_health_missing_credentials_witness:
  "env (sample_world\<lparr>env := sample_env(''GARMIN_EMAIL'' := None)\<rparr>) ''GARMIN_EMAIL'' = None
   \<and> sync_health (sample_world\<lparr>env := sample_env(''GARMIN_EMAIL'' := None)\<rparr>) =
         \<lparr>raised = Some (ValueError ''Missing Garmin or Notion credentials in environment''),
          trace = [], rows = []\<rparr>
   \<and> env (sample_world\<lparr>env := sample_env(''NOTION_HEART_RATE_DB_ID'' := None,
                                             ''NOTION_RESPIRATION_DB_ID'' := None)\<rparr>)
         ''NOTION_HEART_RATE_DB_ID'' = None
   \<and> (\<forall>m. raised (sync_health
                (sample_world\<lparr>env := sample_env(''NOTION_HEART_RATE_DB_ID'' := None,
                                                ''NOTION_RESPIRATION_DB_ID'' := None)\<rparr>))
          \<noteq> Some (ValueError m))"
  using sync_health_missing_credentials
          [of "sample_world\<lparr>env := sample_env(''GARMIN_EMAIL'' := None)\<rparr>"]
        sync_health_missing_credentials
          [of "sample_world\<lparr>env := sample_env(''NOTION_HEART_RATE_DB_ID'' := None,
                                                ''NOTION_RESPIRATION_DB_ID'' := None)\<rparr>"]
  by (simp add: sample_env_def truthy_def)

lemma rows_heart_rate_phase:
  "p \<in> set (rows (heart_rate_phase w h t s)) \<Longrightarrow>
     p \<in> set (rows s)
     \<or> (PagesCreate p \<in> set (trace (heart_rate_phase w h t s)) \<and> pages_create w p = None)"
  by (auto simp: heart_rate_phase_def rows_create_page trace_create_page rows_emit trace_emit
        Let_def split: sum.splits if_splits)

lemma rows_respiration_phase:
  "p \<in> set (rows (respiration_phase w h t s)) \<Longrightarrow>
     p \<in> set (rows s)
     \<or> (PagesCreate p \<in> set (trace (respiration_phase w h t s)) \<and> pages_create w p = None)"
  by (auto simp: respiration_phase_def rows_create_page trace_create_page rows_emit trace_emit
        Let_def split: sum.splits if_splits option.splits)

lemma trace_respiration_phase_mono:
  "e \<in> set (trace s) \<Longrightarrow> e \<in> set (trace (respiration_phase w h t s))"
  by (auto simp: respiration_phase_def trace_create_page trace_emit
        Let_def split: sum.splits if_splits option.splits)

lemma sync_health_rows:
  assumes "p \<in> set (rows (sync_health w))"
  shows "PagesCreate p \<in> set (trace (sync_health w)) \<and> pages_create w p = None"
proof (cases "credentials_ok w")
  case False
  with assms show ?thesis
    by (simp add: sync_health_not_ok)
next
  case ok: True
  show ?thesis
  proof (cases "login w")
    case (Some e)
    with ok assms show ?thesis
      by (simp add: sync_health_login_raises logged_in_def)
  next
    case None
    have a: "q \<in> set (rows (after_heart_rate w)) \<Longrightarrow>
             PagesCreate q \<in> set (trace (after_heart_rate w)) \<and> pages_create w q = None" for q
      using rows_heart_rate_phase
        [of q w "env w ''NOTION_HEART_RATE_DB_ID''" "today w" "logged_in w"]
      by (simp add: after_heart_rate_def) (simp add: logged_in_def)
    show ?thesis
    proof (cases "raised (after_heart_rate w) \<noteq> None")
      case True
      with assms a show ?thesis
        by (simp add: sync_health_logged_in [OF ok None])
    next
      case False
      with assms have "p \<in> set (rows (respiration_phase w (env w ''NOTION_RESPIRATION_DB_ID'')
                         (today w) (after_heart_rate w)))"
        by (simp add: sync_health_logged_in [OF ok None])
      from rows_respiration_phase [OF this] a trace_respiration_phase_mono False
      show ?thesis
        by (auto simp: sync_health_logged_in [OF ok None])
    qed
  qed
qed

text \<open>
  C2. A row-creation call for the heart-rate metric is made only if the heart-rate fetch
  returned data that is present and \<^verbatim>\<open>NOTION_HEART_RATE_DB_ID\<close> is configured; one for
  the respiration metric only if the respiration fetch returned data that is present,
  \<^verbatim>\<open>NOTION_RESPIRATION_DB_ID\<close> is configured and the aggregator yields a value, and then
  its number is that mean rounded to two decimals. Every row created comes from such a
  call. With a table identifier that is not configured, the call of that metric is never
  made.
\<close>

theorem sync_health_uploads_only_if:
  "(\<forall>p\<in>set (heart_rate_calls (sync_health w)).
      truthy (env w ''NOTION_HEART_RATE_DB_ID'')
      \<and> (\<exists>d. get_heart_rates w (today w) = Inr (Some d) \<and> d \<noteq> []
             \<and> p = heart_rate_page (the (env w ''NOTION_HEART_RATE_DB_ID'')) (today w)
                     (dict_get d ''restingHeartRate'')))
   \<and> (\<forall>p\<in>set (respiration_calls (sync_health w)).
      truthy (env w ''NOTION_RESPIRATION_DB_ID'')
      \<and> (\<exists>d avg. get_respiration_data w (today w) = Inr (Some d) \<and> d \<noteq> []
             \<and> get_average_respiration d = Inr (Some avg)
             \<and> number_value p = PyFloat (round2 w avg)
             \<and> p = respiration_page (the (env w ''NOTION_RESPIRATION_DB_ID'')) (today w)
                     (round2 w avg)))
   \<and> (\<forall>p\<in>set (rows (sync_health w)).
        p \<in> set (heart_rate_calls (sync_health w))
        \<or> p \<in> set (respiration_calls (sync_health w)))
   \<and> (\<not> truthy (env w ''NOTION_HEART_RATE_DB_ID'')
        \<longrightarrow> heart_rate_calls (sync_health w) = [])
   \<and> (\<not> truthy (env w ''NOTION_RESPIRATION_DB_ID'')
        \<longrightarrow> respiration_calls (sync_health w) = [])"
proof -
  have hr: "truthy (env w ''NOTION_HEART_RATE_DB_ID'')
      \<and> (\<exists>d. get_heart_rates w (today w) = Inr (Some d) \<and> d \<noteq> []
             \<and> p = heart_rate_page (the (env w ''NOTION_HEART_RATE_DB_ID'')) (today w)
                     (dict_get d ''restingHeartRate''))"
    if "p \<in> set (heart_rate_calls (sync_health w))" for p
  proof -
    from that have c: "PagesCreate p \<in> set (trace (sync_health w))"
      and n: "number_name p = ''Resting Heart Rate''"
      by (simp_all add: heart_rate_calls_iff)
    from sync_health_calls [OF c] n show ?thesis
      by (auto simp: page_names truthy_data_Some)
  qed
  have resp: "truthy (env w ''NOTION_RESPIRATION_DB_ID'')
      \<and> (\<exists>d avg. get_respiration_data w (today w) = Inr (Some d) \<and> d \<noteq> []
             \<and> get_average_respiration d = Inr (Some avg)
             \<and> number_value p = PyFloat (round2 w avg)
             \<and> p = respiration_page (the (env w ''NOTION_RESPIRATION_DB_ID'')) (today w)
                     (round2 w avg))"
    if "p \<in> set (respiration_calls (sync_health w))" for p
  proof -
    from that have c: "PagesCreate p \<in> set (trace (sync_health w))"
      and n: "number_name p = ''Average Respiration''"
      by (simp_all add: respiration_calls_iff)
    have v: "number_value (respiration_page h t x) = PyFloat x" for h t x
      by (simp add: respiration_page_def)
    from sync_health_calls [OF c] n show ?thesis
      by (auto simp: page_names truthy_data_Some v)
  qed
  have rws: "p \<in> set (heart_rate_calls (sync_health w))
        \<or> p \<in> set (respiration_calls (sync_health w))"
    if "p \<in> set (rows (sync_health w))" for p
  proof -
    from sync_health_rows [OF that]
    have c: "PagesCreate p \<in> set (trace (sync_health w))" by simp
    from sync_health_calls [OF c] c show ?thesis
      by (auto simp: heart_rate_calls_iff respiration_calls_iff page_names)
  qed
  have nohr: "heart_rate_calls (sync_health w) = []"
    if "\<not> truthy (env w ''NOTION_HEART_RATE_DB_ID'')"
    using hr that by (cases "heart_rate_calls (sync_health w)") auto
  have noresp: "respiration_calls (sync_health w) = []"
    if "\<not> truthy (env w ''NOTION_RESPIRATION_DB_ID'')"
    using resp that by (cases "respiration_calls (sync_health w)") auto
  from hr resp rws nohr noresp show ?thesis
    by blast
qed

text \<open>What the sample worlds do, by evaluation.\<close>

lemmas run_defs =
  sync_health_def heart_rate_phase_def respiration_phase_def create_page_def emit_def
  truthy_def truthy_data_def truthy_val_def heart_rate_page_def respiration_page_def
  get_average_respiration_def int_true_divide_def finite_or_overflow_def
  round_double_small_ints dict_get_def sample_world_def sample_env_def Let_def

lemma sync_health_sample_world:
  "sync_health sample_world =
     \<lparr>raised = None,
      trace = [Login ''runner@example.org'' ''secret'',
               GetHeartRates ''2024-05-01'',
               PagesCreate (heart_rate_page ''hr-db'' ''2024-05-01'' (PyInt 52)),
               Print (UploadedHeartRate ''2024-05-01''),
               GetRespirationData ''2024-05-01'',
               PagesCreate (respiration_page ''resp-db'' ''2024-05-01'' (Finite 15)),
               Print (UploadedRespiration ''2024-05-01'')],
      rows = [heart_rate_page ''hr-db'' ''2024-05-01'' (PyInt 52),
              respiration_page ''resp-db'' ''2024-05-01'' (Finite 15)]\<rparr>"
  by (simp add: run_defs)

text \<open>
  An exception of the aggregator ends the run before any respiration row is sent: with
  the single respiration sample \<open>10 ^ 309\<close> the run stops after the respiration fetch.
\<close>

lemma sync_health_aggregator_raises:
  "sync_health
     (sample_world\<lparr>get_respiration_data :=
        \<lambda>d. Inr (Some [[(''averageRespirationValue'', PyInt (10 ^ 309))]])\<rparr>) =
     \<lparr>raised = Some OverflowError,
      trace = [Login ''runner@example.org'' ''secret'',
               GetHeartRates ''2024-05-01'',
               PagesCreate (heart_rate_page ''hr-db'' ''2024-05-01'' (PyInt 52)),
               Print (UploadedHeartRate ''2024-05-01''),
               GetRespirationData ''2024-05-01''],
      rows = [heart_rate_page ''hr-db'' ''2024-05-01'' (PyInt 52)]\<rparr>"
  using round_double_1e309 by (simp add: run_defs)

theorem sync_health_uploads_only_if_witness:
  "heart_rate_page ''hr-db'' ''2024-05-01'' (PyInt 52)
     \<in> set (heart_rate_calls (sync_health sample_world))
   \<and> respiration_page ''resp-db'' ''2024-05-01'' (Finite 15)
     \<in> set (respiration_calls (sync_health sample_world))
   \<and> respiration_page ''resp-db'' ''2024-05-01'' (Finite 15) \<in> set (rows (sync_health sample_world))
   \<and> truthy (env sample_world ''NOTION_RESPIRATION_DB_ID'')
   \<and> (\<exists>d avg. get_respiration_data sample_world (today sample_world) = Inr (Some d)
         \<and> d \<noteq> [] \<and> get_average_respiration d = Inr (Some avg)
         \<and> number_value (respiration_page ''resp-db'' ''2024-05-01'' (Finite 15))
             = PyFloat (round2 sample_world avg))
   \<and> \<not> truthy (env (sample_world\<lparr>env := sample_env(''NOTION_HEART_RATE_DB_ID'' := None)\<rparr>)
                ''NOTION_HEART_RATE_DB_ID'')
   \<and> heart_rate_calls
       (sync_health (sample_world\<lparr>env := sample_env(''NOTION_HEART_RATE_DB_ID'' := None)\<rparr>))
      = []
   \<and> \<not> truthy (env (sample_world\<lparr>env := sample_env(''NOTION_RESPIRATION_DB_ID'' := None)\<rparr>)
                ''NOTION_RESPIRATION_DB_ID'')
   \<and> respiration_calls
       (sync_health
          (sample_world\<lparr>env := sample_env(''NOTION_RESPIRATION_DB_ID'' := None)\<rparr>))
      = []"
proof -
  have a: "heart_rate_page ''hr-db'' ''2024-05-01'' (PyInt 52)
             \<in> set (heart_rate_calls (sync_health sample_world))"
    by (simp add: heart_rate_calls_iff sync_health_sample_world page_names)
  have b: "respiration_page ''resp-db'' ''2024-05-01'' (Finite 15)
             \<in> set (respiration_calls (sync_health sample_world))"
    by (simp add: respiration_calls_iff sync_health_sample_world page_names)
  have c: "respiration_page ''resp-db'' ''2024-05-01'' (Finite 15) \<in> set (rows (sync_health sample_world))"
    by (simp add: sync_health_sample_world)
  have h: "\<not> truthy (env (sample_world\<lparr>env := sample_env(''NOTION_HEART_RATE_DB_ID'' := None)\<rparr>)
                ''NOTION_HEART_RATE_DB_ID'')"
    by (simp add: truthy_def)
  have r: "\<not> truthy (env (sample_world\<lparr>env := sample_env(''NOTION_RESPIRATION_DB_ID'' := None)\<rparr>)
                ''NOTION_RESPIRATION_DB_ID'')"
    by (simp add: truthy_def)
  show ?thesis
    using a b c h r
      sync_health_uploads_only_if [of sample_world]
      sync_health_uploads_only_if
        [of "sample_world\<lparr>env := sample_env(''NOTION_HEART_RATE_DB_ID'' := None)\<rparr>"]
      sync_health_uploads_only_if
        [of "sample_world\<lparr>env := sample_env(''NOTION_RESPIRATION_DB_ID'' := None)\<rparr>"]
    by blast
qed

lemma trace_respiration_phase_starts:
  "\<exists>rest. trace (respiration_phase w h t s) = trace s @ GetRespirationData t # rest"
  by (auto simp: respiration_phase_def trace_create_page trace_emit
        split: sum.splits option.splits)

lemma rows_respiration_phase_mono:
  "p \<in> set (rows s) \<Longrightarrow> p \<in> set (rows (respiration_phase w h t s))"
  by (auto simp: respiration_phase_def rows_create_page rows_emit
        split: sum.splits option.splits)

lemma after_heart_rate_fetch_raises:
  "get_heart_rates w (today w) = Inl e \<Longrightarrow>
     after_heart_rate w =
       \<lparr>raised = None,
        trace = [Login (the (env w ''GARMIN_EMAIL'')) (the (env w ''GARMIN_PASSWORD'')),
                 GetHeartRates (today w), Print (CouldNotFetchHeartRate e)],
        rows = []\<rparr>"
  by (simp add: after_heart_rate_def heart_rate_phase_fetch_raises emit_def logged_in_def)

text \<open>
  C4. When the heart-rate fetch raises \<open>e\<close>, the exception is caught: the diagnostic is
  printed, no heart-rate row creation is called, and the run goes on, from a state in
  which nothing is raised, into the respiration phase, whose first step is the
  respiration fetch; the respiration row is sent whenever its own conditions hold.
\<close>

theorem sync_health_heart_rate_fetch_raises:
  assumes "credentials_ok w" and "login w = None"
    and "get_heart_rates w (today w) = Inl e"
  shows "sync_health w =
           respiration_phase w (env w ''NOTION_RESPIRATION_DB_ID'') (today w)
             \<lparr>raised = None,
              trace = [Login (the (env w ''GARMIN_EMAIL'')) (the (env w ''GARMIN_PASSWORD'')),
                       GetHeartRates (today w), Print (CouldNotFetchHeartRate e)],
              rows = []\<rparr>
         \<and> (\<exists>rest. trace (sync_health w) =
               [Login (the (env w ''GARMIN_EMAIL'')) (the (env w ''GARMIN_PASSWORD'')),
                GetHeartRates (today w), Print (CouldNotFetchHeartRate e),
                GetRespirationData (today w)] @ rest)
         \<and> heart_rate_calls (sync_health w) = []
         \<and> (\<forall>d avg. get_respiration_data w (today w) = Inr (Some d) \<and> d \<noteq> []
                \<and> truthy (env w ''NOTION_RESPIRATION_DB_ID'')
                \<and> get_average_respiration d = Inr (Some avg)
              \<longrightarrow> respiration_page (the (env w ''NOTION_RESPIRATION_DB_ID'')) (today w)
                     (round2 w avg) \<in> set (respiration_calls (sync_health w)))"
proof -
  let ?s = "\<lparr>raised = None,
              trace = [Login (the (env w ''GARMIN_EMAIL'')) (the (env w ''GARMIN_PASSWORD'')),
                       GetHeartRates (today w), Print (CouldNotFetchHeartRate e)],
              rows = []\<rparr>"
  have ah: "after_heart_rate w = ?s"
    using assms(3) by (rule after_heart_rate_fetch_raises)
  have eq: "sync_health w =
              respiration_phase w (env w ''NOTION_RESPIRATION_DB_ID'') (today w) ?s"
    by (simp add: sync_health_logged_in [OF assms(1,2)] ah)
  have tr: "\<exists>rest. trace (sync_health w) =
               [Login (the (env w ''GARMIN_EMAIL'')) (the (env w ''GARMIN_PASSWORD'')),
                GetHeartRates (today w), Print (CouldNotFetchHeartRate e),
                GetRespirationData (today w)] @ rest"
    using trace_respiration_phase_starts
      [of w "env w ''NOTION_RESPIRATION_DB_ID''" "today w" ?s]
    by (simp add: eq)
  have no: "heart_rate_calls (sync_health w) = []"
  proof (cases "heart_rate_calls (sync_health w)")
    case Nil
    then show ?thesis .
  next
    case (Cons p ps)
    then have "p \<in> set (heart_rate_calls (sync_health w))" by simp
    then have "PagesCreate p \<in> set (trace (sync_health w))"
      and "number_name p = ''Resting Heart Rate''"
      by (simp_all add: heart_rate_calls_iff)
    with sync_health_calls [of p w] assms(3) show ?thesis
      by (auto simp: page_names)
  qed
  have up: "respiration_page (the (env w ''NOTION_RESPIRATION_DB_ID'')) (today w)
              (round2 w avg) \<in> set (respiration_calls (sync_health w))"
    if "get_respiration_data w (today w) = Inr (Some d) \<and> d \<noteq> []
          \<and> truthy (env w ''NOTION_RESPIRATION_DB_ID'')
          \<and> get_average_respiration d = Inr (Some avg)" for d avg
    using that
    by (simp add: respiration_calls_iff page_names eq respiration_phase_calls truthy_data_def)
  from eq tr no up show ?thesis
    by blast
qed

lemma sample_world_simps:
  "env sample_world = sample_env"
  "today sample_world = ''2024-05-01''"
  "login sample_world = None"
  "get_heart_rates sample_world = (\<lambda>d. Inr (Some [(''restingHeartRate'', PyInt 52)]))"
  "get_respiration_data sample_world =
     (\<lambda>d. Inr (Some [[(''averageRespirationValue'', PyInt 14)],
                       [(''averageRespirationValue'', PyNone)],
                       [(''averageRespirationValue'', PyInt 16)]]))"
  "pages_create sample_world = (\<lambda>p. None)"
  "round2 sample_world = (\<lambda>x. x)"
  by (simp_all add: sample_world_def)

lemma sample_env_simps:
  "sample_env ''GARMIN_EMAIL'' = Some ''runner@example.org''"
  "sample_env ''GARMIN_PASSWORD'' = Some ''secret''"
  "sample_env ''NOTION_TOKEN'' = Some ''ntn_token''"
  "sample_env ''NOTION_HEART_RATE_DB_ID'' = Some ''hr-db''"
  "sample_env ''NOTION_RESPIRATION_DB_ID'' = Some ''resp-db''"
  by (simp_all add: sample_env_def)

lemma sample_average:
  "get_average_respiration
     [[(''averageRespirationValue'', PyInt 14)], [(''averageRespirationValue'', PyNone)],
      [(''averageRespirationValue'', PyInt 16)]] = Inr (Some (Finite 15))"
  by (simp add: get_average_respiration_def dict_get_def int_true_divide_def
        finite_or_overflow_def round_double_small_ints)

theorem sync_health_heart_rate_fetch_raises_witness:
  "credentials_ok (sample_world\<lparr>get_heart_rates := \<lambda>d. Inl (Exn ''timeout'')\<rparr>)
   \<and> login (sample_world\<lparr>get_heart_rates := \<lambda>d. Inl (Exn ''timeout'')\<rparr>) = None
   \<and> (\<exists>rest. trace (sync_health (sample_world\<lparr>get_heart_rates := \<lambda>d. Inl (Exn ''timeout'')\<rparr>))
         = [Login ''runner@example.org'' ''secret'', GetHeartRates ''2024-05-01'',
            Print (CouldNotFetchHeartRate (Exn ''timeout'')),
            GetRespirationData ''2024-05-01''] @ rest)
   \<and> heart_rate_calls
        (sync_health (sample_world\<lparr>get_heart_rates := \<lambda>d. Inl (Exn ''timeout'')\<rparr>)) = []
   \<and> respiration_page ''resp-db'' ''2024-05-01'' (Finite 15)
        \<in> set (respiration_calls
                 (sync_health (sample_world\<lparr>get_heart_rates := \<lambda>d. Inl (Exn ''timeout'')\<rparr>)))"
proof -
  let ?w = "sample_world\<lparr>get_heart_rates := \<lambda>d. Inl (Exn ''timeout'')\<rparr>"
  have ok: "credentials_ok ?w"
    by (simp add: credentials_ok_def truthy_def sample_world_simps sample_env_simps)
  have li: "login ?w = None"
    by (simp add: sample_world_simps)
  have f: "get_heart_rates ?w (today ?w) = Inl (Exn ''timeout'')"
    by simp
  note run = sync_health_heart_rate_fetch_raises [OF ok li f]
  have t: "\<exists>rest. trace (sync_health ?w)
         = [Login ''runner@example.org'' ''secret'', GetHeartRates ''2024-05-01'',
            Print (CouldNotFetchHeartRate (Exn ''timeout'')),
            GetRespirationData ''2024-05-01''] @ rest"
    using run [THEN conjunct2, THEN conjunct1]
    by (simp add: sample_world_simps sample_env_simps)
  have n: "heart_rate_calls (sync_health ?w) = []"
    using run [THEN conjunct2, THEN conjunct2, THEN conjunct1] .
  have u: "respiration_page ''resp-db'' ''2024-05-01'' (Finite 15)
             \<in> set (respiration_calls (sync_health ?w))"
    using run [THEN conjunct2, THEN conjunct2, THEN conjunct2]
    by (simp add: truthy_def sample_world_simps sample_env_simps sample_average)
  from ok li t n u show ?thesis
    by blast
qed

lemma heart_rate_page_number:
  "number_value (heart_rate_page h t (dict_get d ''restingHeartRate'')) =
     (case map_of d ''restingHeartRate'' of
                  None \<Rightarrow> PyInt 0
                | Some PyNone \<Rightarrow> PyInt 0
                | Some (PyInt i) \<Rightarrow> PyInt i
                | Some (PyFloat f) \<Rightarrow> (if f = Finite 0 then PyInt 0 else PyFloat f)
                | Some (PyStr s) \<Rightarrow> (if s = [] then PyInt 0 else PyStr s))"
  by (simp add: heart_rate_page_def dict_get_def truthy_val_def
        split: option.split pyval.split)

lemma sync_health_keeps_heart_rate:
  assumes "credentials_ok w" and "login w = None"
  shows "e \<in> set (trace (after_heart_rate w)) \<Longrightarrow> e \<in> set (trace (sync_health w))"
    and "p \<in> set (rows (after_heart_rate w)) \<Longrightarrow> p \<in> set (rows (sync_health w))"
  by (simp_all add: sync_health_logged_in [OF assms] trace_respiration_phase_mono
        rows_respiration_phase_mono)

text \<open>
  C5. With heart-rate data present and the heart-rate table configured, exactly one
  heart-rate payload is sent to the row-creation call, and the row is created when that
  call returns. Its number is the int \<open>0\<close> when the record has no
  \<^verbatim>\<open>restingHeartRate\<close> or has \<^verbatim>\<open>None\<close> there, and the field's value when the record
  has one: an int as it is, a float as it is except that the float zero is sent as the
  int \<open>0\<close>, the same number. (A string, which is no heart rate, is sent as it is
  unless it is empty.)
\<close>

theorem sync_health_resting_heart_rate:
  assumes "credentials_ok w" and "login w = None"
    and "get_heart_rates w (today w) = Inr (Some d)" and "d \<noteq> []"
    and "truthy (env w ''NOTION_HEART_RATE_DB_ID'')"
  shows "set (heart_rate_calls (sync_health w)) =
           {\<lparr>database_id = the (env w ''NOTION_HEART_RATE_DB_ID''),
             date_start = today w,
             number_name = ''Resting Heart Rate'',
             number_value =
               (case map_of d ''restingHeartRate'' of
                  None \<Rightarrow> PyInt 0
                | Some PyNone \<Rightarrow> PyInt 0
                | Some (PyInt i) \<Rightarrow> PyInt i
                | Some (PyFloat f) \<Rightarrow> (if f = Finite 0 then PyInt 0 else PyFloat f)
                | Some (PyStr s) \<Rightarrow> (if s = [] then PyInt 0 else PyStr s))\<rparr>}
         \<and> (pages_create w
               \<lparr>database_id = the (env w ''NOTION_HEART_RATE_DB_ID''),
             date_start = today w,
             number_name = ''Resting Heart Rate'',
             number_value =
               (case map_of d ''restingHeartRate'' of
                  None \<Rightarrow> PyInt 0
                | Some PyNone \<Rightarrow> PyInt 0
                | Some (PyInt i) \<Rightarrow> PyInt i
                | Some (PyFloat f) \<Rightarrow> (if f = Finite 0 then PyInt 0 else PyFloat f)
                | Some (PyStr s) \<Rightarrow> (if s = [] then PyInt 0 else PyStr s))\<rparr> = None
             \<longrightarrow> \<lparr>database_id = the (env w ''NOTION_HEART_RATE_DB_ID''),
             date_start = today w,
             number_name = ''Resting Heart Rate'',
             number_value =
               (case map_of d ''restingHeartRate'' of
                  None \<Rightarrow> PyInt 0
                | Some PyNone \<Rightarrow> PyInt 0
                | Some (PyInt i) \<Rightarrow> PyInt i
                | Some (PyFloat f) \<Rightarrow> (if f = Finite 0 then PyInt 0 else PyFloat f)
                | Some (PyStr s) \<Rightarrow> (if s = [] then PyInt 0 else PyStr s))\<rparr>
                 \<in> set (rows (sync_health w)))"
proof -
  let ?p = "heart_rate_page (the (env w ''NOTION_HEART_RATE_DB_ID'')) (today w)
              (dict_get d ''restingHeartRate'')"
  have p: "?p = \<lparr>database_id = the (env w ''NOTION_HEART_RATE_DB_ID''),
             date_start = today w,
             number_name = ''Resting Heart Rate'',
             number_value =
               (case map_of d ''restingHeartRate'' of
                  None \<Rightarrow> PyInt 0
                | Some PyNone \<Rightarrow> PyInt 0
                | Some (PyInt i) \<Rightarrow> PyInt i
                | Some (PyFloat f) \<Rightarrow> (if f = Finite 0 then PyInt 0 else PyFloat f)
                | Some (PyStr s) \<Rightarrow> (if s = [] then PyInt 0 else PyStr s))\<rparr>"
    using heart_rate_page_number [of "the (env w ''NOTION_HEART_RATE_DB_ID'')" "today w" d]
    by (simp add: heart_rate_page_def)
  have td: "truthy_data (Some d)"
    using assms(4) by (simp add: truthy_data_def)
  have ah: "after_heart_rate w =
              create_page w ?p (UploadedHeartRate (today w))
                (emit [GetHeartRates (today w)] (logged_in w))"
    using heart_rate_phase_upload [OF assms(3) td assms(5)]
    by (simp add: after_heart_rate_def)
  have "PagesCreate ?p \<in> set (trace (after_heart_rate w))"
    by (simp add: ah trace_create_page)
  then have "PagesCreate ?p \<in> set (trace (sync_health w))"
    by (rule sync_health_keeps_heart_rate [OF assms(1,2)])
  then have mem: "?p \<in> set (heart_rate_calls (sync_health w))"
    by (simp add: heart_rate_calls_iff page_names)
  have only: "q = ?p" if "q \<in> set (heart_rate_calls (sync_health w))" for q
  proof -
    from that have "PagesCreate q \<in> set (trace (sync_health w))"
      and "number_name q = ''Resting Heart Rate''"
      by (simp_all add: heart_rate_calls_iff)
    with sync_health_calls [of q w] assms(3) show ?thesis
      by (auto simp: page_names)
  qed
  have rw: "?p \<in> set (rows (sync_health w))" if "pages_create w ?p = None"
  proof -
    from that have "?p \<in> set (rows (after_heart_rate w))"
      by (simp add: ah rows_create_page)
    then show ?thesis
      by (rule sync_health_keeps_heart_rate [OF assms(1,2)])
  qed
  from mem only have "set (heart_rate_calls (sync_health w)) = {?p}"
    by blast
  with rw show ?thesis
    unfolding p by blast
qed

theorem sync_health_resting_heart_rate_witness:
  "credentials_ok sample_world
   \<and> set (heart_rate_calls
        (sync_health
           (sample_world\<lparr>get_heart_rates := \<lambda>d. Inr (Some [(''restingHeartRate'', PyNone)])\<rparr>)))
      = {\<lparr>database_id = ''hr-db'', date_start = ''2024-05-01'',
          number_name = ''Resting Heart Rate'', number_value = PyInt 0\<rparr>}
   \<and> \<lparr>database_id = ''hr-db'', date_start = ''2024-05-01'',
       number_name = ''Resting Heart Rate'', number_value = PyInt 0\<rparr>
      \<in> set (rows (sync_health
           (sample_world\<lparr>get_heart_rates := \<lambda>d. Inr (Some [(''restingHeartRate'', PyNone)])\<rparr>)))
   \<and> set (heart_rate_calls
        (sync_health
           (sample_world\<lparr>get_heart_rates := \<lambda>d. Inr (Some [(''maxHeartRate'', PyInt 150)])\<rparr>)))
      = {\<lparr>database_id = ''hr-db'', date_start = ''2024-05-01'',
          number_name = ''Resting Heart Rate'', number_value = PyInt 0\<rparr>}
   \<and> set (heart_rate_calls (sync_health sample_world))
      = {\<lparr>database_id = ''hr-db'', date_start = ''2024-05-01'',
          number_name = ''Resting Heart Rate'', number_value = PyInt 52\<rparr>}
   \<and> \<lparr>database_id = ''hr-db'', date_start = ''2024-05-01'',
       number_name = ''Resting Heart Rate'', number_value = PyInt 52\<rparr>
      \<in> set (rows (sync_health sample_world))
   \<and> set (heart_rate_calls
        (sync_health
           (sample_world\<lparr>get_heart_rates :=
              \<lambda>d. Inr (Some [(''restingHeartRate'', PyFloat (Finite (105 / 2)))])\<rparr>)))
      = {\<lparr>database_id = ''hr-db'', date_start = ''2024-05-01'',
          number_name = ''Resting Heart Rate'', number_value = PyFloat (Finite (105 / 2))\<rparr>}"
proof -
  let ?n = "sample_world\<lparr>get_heart_rates := \<lambda>d. Inr (Some [(''restingHeartRate'', PyNone)])\<rparr>"
  let ?m = "sample_world\<lparr>get_heart_rates := \<lambda>d. Inr (Some [(''maxHeartRate'', PyInt 150)])\<rparr>"
  let ?f = "sample_world\<lparr>get_heart_rates :=
              \<lambda>d. Inr (Some [(''restingHeartRate'', PyFloat (Finite (105 / 2)))])\<rparr>"
  have ok: "credentials_ok sample_world" "credentials_ok ?n" "credentials_ok ?m"
      "credentials_ok ?f"
    by (simp_all add: credentials_ok_def truthy_def sample_world_simps sample_env_simps)
  have li: "login sample_world = None" "login ?n = None" "login ?m = None" "login ?f = None"
    by (simp_all add: sample_world_simps)
  have f: "get_heart_rates sample_world (today sample_world)
             = Inr (Some [(''restingHeartRate'', PyInt 52)])"
      "get_heart_rates ?n (today ?n) = Inr (Some [(''restingHeartRate'', PyNone)])"
      "get_heart_rates ?m (today ?m) = Inr (Some [(''maxHeartRate'', PyInt 150)])"
      "get_heart_rates ?f (today ?f)
             = Inr (Some [(''restingHeartRate'', PyFloat (Finite (105 / 2)))])"
    by (simp_all add: sample_world_simps)
  have db: "truthy (env sample_world ''NOTION_HEART_RATE_DB_ID'')"
      "truthy (env ?n ''NOTION_HEART_RATE_DB_ID'')"
      "truthy (env ?m ''NOTION_HEART_RATE_DB_ID'')"
      "truthy (env ?f ''NOTION_HEART_RATE_DB_ID'')"
    by (simp_all add: truthy_def sample_world_simps sample_env_simps)
  have a: "set (heart_rate_calls (sync_health ?n))
      = {\<lparr>database_id = ''hr-db'', date_start = ''2024-05-01'',
          number_name = ''Resting Heart Rate'', number_value = PyInt 0\<rparr>}"
    and a': "\<lparr>database_id = ''hr-db'', date_start = ''2024-05-01'',
       number_name = ''Resting Heart Rate'', number_value = PyInt 0\<rparr>
      \<in> set (rows (sync_health ?n))"
    using sync_health_resting_heart_rate [OF ok(2) li(2) f(2) _ db(2)]
    by (simp_all add: sample_world_simps sample_env_simps)
  have b: "set (heart_rate_calls (sync_health ?m))
      = {\<lparr>database_id = ''hr-db'', date_start = ''2024-05-01'',
          number_name = ''Resting Heart Rate'', number_value = PyInt 0\<rparr>}"
    using sync_health_resting_heart_rate [OF ok(3) li(3) f(3) _ db(3)]
    by (simp add: sample_world_simps sample_env_simps)
  have c: "set (heart_rate_calls (sync_health sample_world))
      = {\<lparr>database_id = ''hr-db'', date_start = ''2024-05-01'',
          number_name = ''Resting Heart Rate'', number_value = PyInt 52\<rparr>}"
    and c': "\<lparr>database_id = ''hr-db'', date_start = ''2024-05-01'',
       number_name = ''Resting Heart Rate'', number_value = PyInt 52\<rparr>
      \<in> set (rows (sync_health sample_world))"
    using sync_health_resting_heart_rate [OF ok(1) li(1) f(1) _ db(1)]
    by (simp_all add: sample_world_simps sample_env_simps)
  have d: "set (heart_rate_calls (sync_health ?f))
      = {\<lparr>database_id = ''hr-db'', date_start = ''2024-05-01'',
          number_name = ''Resting Heart Rate'', number_value = PyFloat (Finite (105 / 2))\<rparr>}"
    using sync_health_resting_heart_rate [OF ok(4) li(4) f(4) _ db(4)]
    by (simp add: sample_world_simps sample_env_simps)
  from ok(1) a a' b c c' d show ?thesis
    by blast
qed

lemma heart_rate_phase_raised_by:
  "raised s = None \<Longrightarrow> raised (heart_rate_phase w h t s) \<noteq> None \<Longrightarrow>
     \<exists>d e. get_heart_rates w t = Inr d \<and> truthy_data d \<and> truthy h
       \<and> pages_create w (heart_rate_page (the h) t (dict_get (the d) ''restingHeartRate''))
           = Some e
       \<and> heart_rate_phase w h t s =
           (emit [GetHeartRates t,
                  PagesCreate (heart_rate_page (the h) t (dict_get (the d) ''restingHeartRate''))]
              s)\<lparr>raised := Some (Propagated e)\<rparr>"
  by (auto simp: heart_rate_phase_def create_page_def emit_def truthy_data_def Let_def
        split: sum.splits option.splits if_splits)

text \<open>
  C7. No handler surrounds a row creation. If a row-creation call that the run makes
  raises \<open>e\<close>, the run ends there with \<open>e\<close>: that call is the last event, and its row does
  not exist. If it is the heart-rate row, the run consists of the login, the heart-rate
  fetch and the failed call only: no respiration fetch and no respiration upload.
\<close>

theorem sync_health_create_raises:
  assumes "PagesCreate p \<in> set (trace (sync_health w))"
    and "pages_create w p = Some e"
  shows "raised (sync_health w) = Some (Propagated e)
         \<and> last (trace (sync_health w)) = PagesCreate p
         \<and> p \<notin> set (rows (sync_health w))
         \<and> (number_name p = ''Resting Heart Rate'' \<longrightarrow>
              sync_health w =
                \<lparr>raised = Some (Propagated e),
                 trace = [Login (the (env w ''GARMIN_EMAIL'')) (the (env w ''GARMIN_PASSWORD'')),
                          GetHeartRates (today w), PagesCreate p],
                 rows = []\<rparr>)"
proof -
  have ok: "credentials_ok w"
    using assms(1) by (cases "credentials_ok w") (simp_all add: sync_health_not_ok)
  have li: "login w = None"
    using assms(1) ok
    by (cases "login w") (simp_all add: sync_health_login_raises logged_in_def)
  note sh = sync_health_logged_in [OF ok li]
  have norow: "p \<notin> set (rows (sync_health w))"
    using sync_health_rows [of p w] assms(2) by auto
  show ?thesis
  proof (cases "raised (after_heart_rate w) = None")
    case False
    then have eq: "sync_health w = after_heart_rate w"
      by (simp add: sh)
    from False heart_rate_phase_raised_by
      [of "logged_in w" w "env w ''NOTION_HEART_RATE_DB_ID''" "today w"]
    obtain d e' where c: "pages_create w
          (heart_rate_page (the (env w ''NOTION_HEART_RATE_DB_ID'')) (today w)
             (dict_get (the d) ''restingHeartRate'')) = Some e'"
      and a: "after_heart_rate w =
          (emit [GetHeartRates (today w),
                 PagesCreate (heart_rate_page (the (env w ''NOTION_HEART_RATE_DB_ID''))
                   (today w) (dict_get (the d) ''restingHeartRate''))]
             (logged_in w))\<lparr>raised := Some (Propagated e')\<rparr>"
      by (auto simp: after_heart_rate_def logged_in_def)
    from assms(1) have p: "p = heart_rate_page (the (env w ''NOTION_HEART_RATE_DB_ID''))
                   (today w) (dict_get (the d) ''restingHeartRate'')"
      by (simp add: eq a emit_def logged_in_def)
    with c assms(2) have "e' = e" by simp
    with a p norow show ?thesis
      by (simp add: eq emit_def logged_in_def)
  next
    case True
    let ?r = "env w ''NOTION_RESPIRATION_DB_ID''"
    have eq: "sync_health w = respiration_phase w ?r (today w) (after_heart_rate w)"
      using True by (simp add: sh)
    have notin: "PagesCreate p \<notin> set (trace (after_heart_rate w))"
    proof
      assume "PagesCreate p \<in> set (trace (after_heart_rate w))"
      then obtain d where "get_heart_rates w (today w) = Inr d" "truthy_data d"
        "truthy (env w ''NOTION_HEART_RATE_DB_ID'')"
        "p = heart_rate_page (the (env w ''NOTION_HEART_RATE_DB_ID'')) (today w)
               (dict_get (the d) ''restingHeartRate'')"
        by (auto simp: after_heart_rate_def heart_rate_phase_calls logged_in_def)
      then have "raised (after_heart_rate w) = Some (Propagated e)"
        using assms(2)
        by (simp add: after_heart_rate_def heart_rate_phase_upload raised_create_page)
      with True show False by simp
    qed
    with assms(1) obtain d avg where
      d: "get_respiration_data w (today w) = Inr d" "truthy_data d" "truthy ?r"
        "get_average_respiration (the d) = Inr (Some avg)"
        "p = respiration_page (the ?r) (today w) (round2 w avg)"
      by (auto simp: eq respiration_phase_calls)
    have ex: "sync_health w =
        create_page w p (UploadedRespiration (today w))
          (emit [GetRespirationData (today w)] (after_heart_rate w))"
      using respiration_phase_upload [OF d(1,2,3,4)] by (simp add: eq d(5))
    have name: "number_name p \<noteq> ''Resting Heart Rate''"
      by (simp add: d(5) page_names)
    from norow name show ?thesis
      by (simp add: ex raised_create_page trace_create_page assms(2))
  qed
qed

theorem sync_health_create_raises_witness:
  "PagesCreate (heart_rate_page ''hr-db'' ''2024-05-01'' (PyInt 52))
     \<in> set (trace (sync_health (sample_world\<lparr>pages_create := \<lambda>p. Some (Exn ''503'')\<rparr>)))
   \<and> pages_create (sample_world\<lparr>pages_create := \<lambda>p. Some (Exn ''503'')\<rparr>)
        (heart_rate_page ''hr-db'' ''2024-05-01'' (PyInt 52)) = Some (Exn ''503'')
   \<and> sync_health (sample_world\<lparr>pages_create := \<lambda>p. Some (Exn ''503'')\<rparr>) =
        \<lparr>raised = Some (Propagated (Exn ''503'')),
         trace = [Login ''runner@example.org'' ''secret'', GetHeartRates ''2024-05-01'',
                  PagesCreate (heart_rate_page ''hr-db'' ''2024-05-01'' (PyInt 52))],
         rows = []\<rparr>"
proof -
  let ?w = "sample_world\<lparr>pages_create := \<lambda>p. Some (Exn ''503'')\<rparr>"
  let ?p = "heart_rate_page ''hr-db'' ''2024-05-01'' (PyInt 52)"
  have ok: "credentials_ok ?w"
    by (simp add: credentials_ok_def truthy_def sample_world_simps sample_env_simps)
  have li: "login ?w = None"
    by (simp add: sample_world_simps)
  have "after_heart_rate ?w =
          create_page ?w ?p (UploadedHeartRate ''2024-05-01'')
            (emit [GetHeartRates ''2024-05-01''] (logged_in ?w))"
    by (simp add: after_heart_rate_def heart_rate_phase_def truthy_def truthy_data_def
          dict_get_def sample_world_simps sample_env_simps)
  then have "PagesCreate ?p \<in> set (trace (after_heart_rate ?w))"
    by (simp add: trace_create_page)
  then have m: "PagesCreate ?p \<in> set (trace (sync_health ?w))"
    by (rule sync_health_keeps_heart_rate [OF ok li])
  have c: "pages_create ?w ?p = Some (Exn ''503'')"
    by simp
  have n: "number_name ?p = ''Resting Heart Rate''"
    by (simp add: page_names)
  from sync_health_create_raises [OF m c] n m c show ?thesis
    by (simp add: sample_world_simps sample_env_simps)
qed

lemma create_page_env:
  "create_page (w\<lparr>env := m\<rparr>) p d s = create_page w p d s"
  by (simp add: create_page_def)

lemma heart_rate_phase_env:
  "heart_rate_phase (w\<lparr>env := m\<rparr>) h t s = heart_rate_phase w h t s"
  by (cases "get_heart_rates w t") (simp_all add: heart_rate_phase_def create_page_env)

lemma respiration_phase_env:
  "respiration_phase (w\<lparr>env := m\<rparr>) h t s = respiration_phase w h t s"
  by (cases "get_respiration_data w t")
     (simp_all add: respiration_phase_def create_page_env truthy_data_def
        split: option.split sum.split)

lemma heart_rate_phase_falsy:
  "\<not> truthy h \<Longrightarrow> \<not> truthy h' \<Longrightarrow>
     heart_rate_phase w h t s = heart_rate_phase w h' t s"
  by (simp add: heart_rate_phase_def)

lemma respiration_phase_falsy:
  "\<not> truthy h \<Longrightarrow> \<not> truthy h' \<Longrightarrow>
     respiration_phase w h t s = respiration_phase w h' t s"
  by (simp add: respiration_phase_def)

lemma sync_health_unset:
  assumes "env w k = Some []"
  shows "sync_health (w\<lparr>env := (env w)(k := None)\<rparr>) = sync_health w"
proof -
  define w' where "w' = w\<lparr>env := (env w)(k := None)\<rparr>"
  have tr: "truthy (env w' x) = truthy (env w x)" for x
    using assms by (simp add: w'_def truthy_def)
  have same: "env w' x = env w x" if "truthy (env w x)" for x
    using assms that by (auto simp: w'_def truthy_def)
  have others: "login w' = login w" "today w' = today w"
    by (simp_all add: w'_def)
  have hr: "heart_rate_phase w' (env w' x) t s = heart_rate_phase w (env w x) t s" for x t s
  proof (cases "truthy (env w x)")
    case True
    then show ?thesis
      by (simp add: same) (simp add: w'_def heart_rate_phase_env)
  next
    case False
    then have "heart_rate_phase w (env w' x) t s = heart_rate_phase w (env w x) t s"
      by (intro heart_rate_phase_falsy) (simp_all add: tr)
    then show ?thesis
      by (simp add: w'_def heart_rate_phase_env)
  qed
  have resp: "respiration_phase w' (env w' x) t s = respiration_phase w (env w x) t s"
    for x t s
  proof (cases "truthy (env w x)")
    case True
    then show ?thesis
      by (simp add: same) (simp add: w'_def respiration_phase_env)
  next
    case False
    then have "respiration_phase w (env w' x) t s = respiration_phase w (env w x) t s"
      by (intro respiration_phase_falsy) (simp_all add: tr)
    then show ?thesis
      by (simp add: w'_def respiration_phase_env)
  qed
  have ok: "credentials_ok w' = credentials_ok w"
    by (simp add: credentials_ok_def tr)
  have "sync_health w' = sync_health w"
  proof (cases "credentials_ok w")
    case False
    with ok show ?thesis
      by (simp add: sync_health_not_ok)
  next
    case True
    then have lg: "logged_in w' = logged_in w"
      by (simp add: logged_in_def credentials_ok_def same)
    have ah: "after_heart_rate w' = after_heart_rate w"
      by (simp add: after_heart_rate_def lg hr others)
    show ?thesis
    proof (cases "login w")
      case (Some e)
      with True ok lg others show ?thesis
        by (simp add: sync_health_login_raises)
    next
      case None
      with True ok others show ?thesis
        by (simp add: sync_health_logged_in ah resp)
    qed
  qed
  then show ?thesis
    by (simp add: w'_def)
qed

text \<open>
  C10. A setting that is present but empty is treated as an absent one: removing it
  from the environment does not change the run. Hence an empty \<^verbatim>\<open>GARMIN_EMAIL\<close>,
  \<^verbatim>\<open>GARMIN_PASSWORD\<close> or \<^verbatim>\<open>NOTION_TOKEN\<close> gives the configuration error, and an empty
  table identifier means that the row creation of its metric is never called.
\<close>

theorem sync_health_empty_setting:
  assumes "env w k = Some []"
  shows "sync_health w = sync_health (w\<lparr>env := (env w)(k := None)\<rparr>)
         \<and> (k = ''GARMIN_EMAIL'' \<or> k = ''GARMIN_PASSWORD'' \<or> k = ''NOTION_TOKEN'' \<longrightarrow>
              sync_health w =
                \<lparr>raised =
                   Some (ValueError ''Missing Garmin or Notion credentials in environment''),
                 trace = [], rows = []\<rparr>)
         \<and> (k = ''NOTION_HEART_RATE_DB_ID'' \<longrightarrow> heart_rate_calls (sync_health w) = [])
         \<and> (k = ''NOTION_RESPIRATION_DB_ID'' \<longrightarrow> respiration_calls (sync_health w) = [])"
proof (intro conjI impI)
  show "sync_health w = sync_health (w\<lparr>env := (env w)(k := None)\<rparr>)"
    using sync_health_unset [OF assms] by simp
next
  assume "k = ''GARMIN_EMAIL'' \<or> k = ''GARMIN_PASSWORD'' \<or> k = ''NOTION_TOKEN''"
  with assms have "\<not> credentials_ok w"
    by (auto simp: credentials_ok_def truthy_def)
  then show "sync_health w =
                \<lparr>raised =
                   Some (ValueError ''Missing Garmin or Notion credentials in environment''),
                 trace = [], rows = []\<rparr>"
    by (rule sync_health_not_ok)
next
  assume "k = ''NOTION_HEART_RATE_DB_ID''"
  with assms have f: "\<not> truthy (env w ''NOTION_HEART_RATE_DB_ID'')"
    by (simp add: truthy_def)
  show "heart_rate_calls (sync_health w) = []"
  proof (cases "heart_rate_calls (sync_health w)")
    case Nil
    then show ?thesis .
  next
    case (Cons p ps)
    then have "p \<in> set (heart_rate_calls (sync_health w))" by simp
    then have "PagesCreate p \<in> set (trace (sync_health w))"
      and "number_name p = ''Resting Heart Rate''"
      by (simp_all add: heart_rate_calls_iff)
    with sync_health_calls [of p w] f show ?thesis
      by (auto simp: page_names)
  qed
next
  assume "k = ''NOTION_RESPIRATION_DB_ID''"
  with assms have f: "\<not> truthy (env w ''NOTION_RESPIRATION_DB_ID'')"
    by (simp add: truthy_def)
  show "respiration_calls (sync_health w) = []"
  proof (cases "respiration_calls (sync_health w)")
    case Nil
    then show ?thesis .
  next
    case (Cons p ps)
    then have "p \<in> set (respiration_calls (sync_health w))" by simp
    then have "PagesCreate p \<in> set (trace (sync_health w))"
      and "number_name p = ''Average Respiration''"
      by (simp_all add: respiration_calls_iff)
    with sync_health_calls [of p w] f show ?thesis
      by (auto simp: page_names)
  qed
qed

theorem sync_health_empty_setting_witness:
  "env (sample_world\<lparr>env := sample_env(''NOTION_TOKEN'' \<mapsto> [])\<rparr>) ''NOTION_TOKEN'' = Some []
   \<and> sync_health (sample_world\<lparr>env := sample_env(''NOTION_TOKEN'' \<mapsto> [])\<rparr>) =
        \<lparr>raised = Some (ValueError ''Missing Garmin or Notion credentials in environment''),
         trace = [], rows = []\<rparr>
   \<and> env (sample_world\<lparr>env := sample_env(''NOTION_HEART_RATE_DB_ID'' \<mapsto> [])\<rparr>)
        ''NOTION_HEART_RATE_DB_ID'' = Some []
   \<and> heart_rate_calls
        (sync_health (sample_world\<lparr>env := sample_env(''NOTION_HEART_RATE_DB_ID'' \<mapsto> [])\<rparr>))
       = []
   \<and> sync_health (sample_world\<lparr>env := sample_env(''NOTION_HEART_RATE_DB_ID'' \<mapsto> [])\<rparr>)
       = sync_health (sample_world\<lparr>env := sample_env(''NOTION_HEART_RATE_DB_ID'' := None)\<rparr>)"
proof -
  have t: "env (sample_world\<lparr>env := sample_env(''NOTION_TOKEN'' \<mapsto> [])\<rparr>) ''NOTION_TOKEN''
             = Some []"
    by simp
  have h: "env (sample_world\<lparr>env := sample_env(''NOTION_HEART_RATE_DB_ID'' \<mapsto> [])\<rparr>)
             ''NOTION_HEART_RATE_DB_ID'' = Some []"
    by simp
  have a: "sync_health (sample_world\<lparr>env := sample_env(''NOTION_TOKEN'' \<mapsto> [])\<rparr>) =
        \<lparr>raised = Some (ValueError ''Missing Garmin or Notion credentials in environment''),
         trace = [], rows = []\<rparr>"
    using sync_health_empty_setting [OF t, THEN conjunct2, THEN conjunct1] by simp
  have b: "heart_rate_calls
        (sync_health (sample_world\<lparr>env := sample_env(''NOTION_HEART_RATE_DB_ID'' \<mapsto> [])\<rparr>))
       = []"
    using sync_health_empty_setting [OF h, THEN conjunct2, THEN conjunct2, THEN conjunct1]
    by simp
  have c: "sync_health (sample_world\<lparr>env := sample_env(''NOTION_HEART_RATE_DB_ID'' \<mapsto> [])\<rparr>)
       = sync_health (sample_world\<lparr>env := sample_env(''NOTION_HEART_RATE_DB_ID'' := None)\<rparr>)"
    using sync_health_empty_setting [OF h, THEN conjunct1] by simp
  from t h a b c show ?thesis
    by blast
qed

end
